theory Spec2Isabelle
  imports Complex_Main
begin

section \<open>Sub-pixel extremum localisation: \<^verbatim>\<open>src/analysis/subpixel_location.cpp\<close>\<close>

subsection \<open>Doubles\<close>

text \<open>
  The C++ type \<^verbatim>\<open>dfloat\<close> is a double. A value of the model is a real number, one of
  the two infinities or NaN, and the operations follow IEEE 754 on these: an infinity
  minus itself, zero times an infinity and an infinity over an infinity are NaN, NaN is
  contagious, every comparison with NaN is false. What the model leaves out is rounding
  and range: on real numbers every operation is exact and never overflows, and zero has
  no sign (the functions below never divide by zero: every divisor is a non-zero
  constant or has passed a test against zero).
  \<^verbatim>\<open>dip::uint\<close> values (sizes, coordinates) are natural numbers.
\<close>

datatype dfloat = Finite real | PInf | MInf | NaN

instantiation dfloat :: "{uminus, plus, minus, times, inverse, ord}"
begin

fun uminus_dfloat :: "dfloat \<Rightarrow> dfloat" where
  "uminus_dfloat (Finite x) = Finite (- x)"
| "uminus_dfloat PInf = MInf"
| "uminus_dfloat MInf = PInf"
| "uminus_dfloat NaN = NaN"

fun plus_dfloat :: "dfloat \<Rightarrow> dfloat \<Rightarrow> dfloat" where
  "plus_dfloat (Finite x) (Finite y) = Finite (x + y)"
| "plus_dfloat NaN b = NaN"
| "plus_dfloat a NaN = NaN"
| "plus_dfloat PInf MInf = NaN"
| "plus_dfloat MInf PInf = NaN"
| "plus_dfloat PInf b = PInf"
| "plus_dfloat a PInf = PInf"
| "plus_dfloat MInf b = MInf"
| "plus_dfloat a MInf = MInf"

definition minus_dfloat :: "dfloat \<Rightarrow> dfloat \<Rightarrow> dfloat" where
  "minus_dfloat a b = a + (- b)"

fun times_dfloat :: "dfloat \<Rightarrow> dfloat \<Rightarrow> dfloat" where
  "times_dfloat (Finite x) (Finite y) = Finite (x * y)"
| "times_dfloat NaN b = NaN"
| "times_dfloat a NaN = NaN"
| "times_dfloat (Finite x) PInf = (if x = 0 then NaN else if 0 < x then PInf else MInf)"
| "times_dfloat (Finite x) MInf = (if x = 0 then NaN else if 0 < x then MInf else PInf)"
| "times_dfloat PInf (Finite y) = (if y = 0 then NaN else if 0 < y then PInf else MInf)"
| "times_dfloat MInf (Finite y) = (if y = 0 then NaN else if 0 < y then MInf else PInf)"
| "times_dfloat PInf PInf = PInf"
| "times_dfloat PInf MInf = MInf"
| "times_dfloat MInf PInf = MInf"
| "times_dfloat MInf MInf = PInf"

fun divide_dfloat :: "dfloat \<Rightarrow> dfloat \<Rightarrow> dfloat" where
  "divide_dfloat (Finite x) (Finite y) =
     (if y = 0 then (if x = 0 then NaN else if 0 < x then PInf else MInf) else Finite (x / y))"
| "divide_dfloat NaN b = NaN"
| "divide_dfloat a NaN = NaN"
| "divide_dfloat (Finite x) b = Finite 0"
| "divide_dfloat PInf (Finite y) = (if 0 \<le> y then PInf else MInf)"
| "divide_dfloat MInf (Finite y) = (if 0 \<le> y then MInf else PInf)"
| "divide_dfloat a b = NaN"

definition inverse_dfloat :: "dfloat \<Rightarrow> dfloat" where
  "inverse_dfloat a = divide (Finite 1) a"

fun less_dfloat :: "dfloat \<Rightarrow> dfloat \<Rightarrow> bool" where
  "less_dfloat (Finite x) (Finite y) = (x < y)"
| "less_dfloat (Finite x) PInf = True"
| "less_dfloat MInf (Finite y) = True"
| "less_dfloat MInf PInf = True"
| "less_dfloat a b = False"

definition less_eq_dfloat :: "dfloat \<Rightarrow> dfloat \<Rightarrow> bool" where
  "less_eq_dfloat a b = (a < b \<or> (a = b \<and> a \<noteq> NaN))"

instance ..

end

text \<open>
  \<^verbatim>\<open>std::min( a, b )\<close> is \<^verbatim>\<open>( b < a ) ? b : a\<close> and \<^verbatim>\<open>std::max( a, b )\<close> is
  \<^verbatim>\<open>( a < b ) ? b : a\<close>: both return their first argument when the other is NaN.
  \<^verbatim>\<open>std::log\<close> of zero is \<open>-\<infinity>\<close> and of a negative number NaN; \<^verbatim>\<open>std::exp\<close> of
  \<open>-\<infinity>\<close> is zero.
\<close>

definition std_min :: "dfloat \<Rightarrow> dfloat \<Rightarrow> dfloat" where
  "std_min a b = (if b < a then b else a)"

definition std_max :: "dfloat \<Rightarrow> dfloat \<Rightarrow> dfloat" where
  "std_max a b = (if a < b then b else a)"

fun std_log :: "dfloat \<Rightarrow> dfloat" where
  "std_log (Finite x) = (if 0 < x then Finite (ln x) else if x = 0 then MInf else NaN)"
| "std_log PInf = PInf"
| "std_log MInf = NaN"
| "std_log NaN = NaN"

fun std_exp :: "dfloat \<Rightarrow> dfloat" where
  "std_exp (Finite x) = Finite (exp x)"
| "std_exp PInf = PInf"
| "std_exp MInf = Finite 0"
| "std_exp NaN = NaN"

subsection \<open>Least-squares solution of the quadratic fits\<close>

text \<open>
  Both fits run the same double loop over a flat weight table \<^verbatim>\<open>w\<close>, read through the
  running index \<^verbatim>\<open>kk\<close>, which is \<open>ii * n + jj\<close> when the inner loop has \<open>n\<close> rounds:
  \<^verbatim>\<open>a[ii] = 0; for jj: a[ii] += w[kk++] * t[jj]; a[ii] = a[ii] / d\<close>. The tables hold
  the constants of the source as exact fractions.
\<close>

definition least_squares :: "real list \<Rightarrow> dfloat list \<Rightarrow> nat \<Rightarrow> nat \<Rightarrow> real \<Rightarrow> dfloat list" where
  "least_squares w t rows n d =
     map (\<lambda>ii. foldl (\<lambda>acc jj. acc + Finite (w ! (ii * n + jj)) * t ! jj) (Finite 0) [0..<n]
                / Finite d) [0..<rows]"

definition w_3x3 :: "real list" where
  "w_3x3 = [
     -2/3,  4/3, -2/3,  4/3, 10/3,  4/3, -2/3,  4/3, -2/3,
     -1,    0,    1,   -1,    0,    1,   -1,    0,    1,
     -1,   -1,   -1,    0,    0,    0,    1,    1,    1,
      1,   -2,    1,    1,   -2,    1,    1,   -2,    1,
      1,    1,    1,   -2,   -2,   -2,    1,    1,    1,
      3/2,  0,   -3/2,  0,    0,    0,   -3/2,  0,    3/2]"

text \<open>
  \<^verbatim>\<open>quadratic_fit_3x3\<close> has three out-parameters \<^verbatim>\<open>x\<close>, \<^verbatim>\<open>y\<close>, \<^verbatim>\<open>val\<close>. The model takes
  their values on entry and returns the boolean result together with their values on
  exit: a zero determinant leaves all three as they were, an offset out of tolerance has
  already overwritten \<^verbatim>\<open>x\<close> and \<^verbatim>\<open>y\<close> but not \<^verbatim>\<open>val\<close>. A NaN determinant is not
  equal to zero and a NaN offset is neither below \<open>-0.75\<close> nor above \<open>0.75\<close>.
\<close>

definition quadratic_fit_3x3 ::
  "dfloat list \<Rightarrow> dfloat \<Rightarrow> dfloat \<Rightarrow> dfloat \<Rightarrow> bool \<times> dfloat \<times> dfloat \<times> dfloat" where
  "quadratic_fit_3x3 t x y val =
     (let a = least_squares w_3x3 t 6 9 6;
          denom = a ! 5 * a ! 5 - Finite 4 * a ! 3 * a ! 4
      in if denom = Finite 0 then (False, x, y, val)
         else
           let x' = (Finite 2 * a ! 4 * a ! 1 - a ! 5 * a ! 2) / denom;
               y' = (Finite 2 * a ! 3 * a ! 2 - a ! 5 * a ! 1) / denom
           in if x' < Finite (- 0.75) \<or> x' > Finite 0.75 \<or> y' < Finite (- 0.75) \<or> y' > Finite 0.75
              then (False, x', y', val)
              else (True, x', y',
                    a ! 0 + a ! 1 * x' + a ! 2 * y' + a ! 3 * x' * x' + a ! 4 * y' * y'
                      + a ! 5 * x' * y'))"

text \<open>
  \<^verbatim>\<open>Solve\<close>, the general linear solver that \<^verbatim>\<open>quadratic_fit_3x3x3\<close> calls as
  \<^verbatim>\<open>Solve( 3, 3, b, c, c )\<close>, is declared outside this file. It is a parameter of the
  model: a function from the 9 matrix entries and the 3 right-hand sides to the 3 unknowns.
\<close>

type_synonym solver = "dfloat list \<Rightarrow> dfloat list \<Rightarrow> dfloat list"

definition w_3x3x3 :: "real list" where
  "w_3x3x3 = [
     -4/3, 2/3, -4/3, 2/3, 8/3, 2/3, -4/3, 2/3, -4/3, 2/3, 8/3, 2/3, 8/3, 14/3, 8/3, 2/3, 8/3, 2/3, -4/3, 2/3, -4/3, 2/3, 8/3, 2/3, -4/3, 2/3, -4/3,
     -1, 0, 1, -1, 0, 1, -1, 0, 1, -1, 0, 1, -1, 0, 1, -1, 0, 1, -1, 0, 1, -1, 0, 1, -1, 0, 1,
     -1, -1, -1, 0, 0, 0, 1, 1, 1, -1, -1, -1, 0, 0, 0, 1, 1, 1, -1, -1, -1, 0, 0, 0, 1, 1, 1,
     -1, -1, -1, -1, -1, -1, -1, -1, -1, 0, 0, 0, 0, 0, 0, 0, 0, 0, 1, 1, 1, 1, 1, 1, 1, 1, 1,
     1, -2, 1, 1, -2, 1, 1, -2, 1, 1, -2, 1, 1, -2, 1, 1, -2, 1, 1, -2, 1, 1, -2, 1, 1, -2, 1,
     1, 1, 1, -2, -2, -2, 1, 1, 1, 1, 1, 1, -2, -2, -2, 1, 1, 1, 1, 1, 1, -2, -2, -2, 1, 1, 1,
     1, 1, 1, 1, 1, 1, 1, 1, 1, -2, -2, -2, -2, -2, -2, -2, -2, -2, 1, 1, 1, 1, 1, 1, 1, 1, 1,
     3/2, 3/2, 3/2, 0, 0, 0, -3/2, -3/2, -3/2, 0, 0, 0, 0, 0, 0, 0, 0, 0, -3/2, -3/2, -3/2, 0, 0, 0, 3/2, 3/2, 3/2,
     3/2, 0, -3/2, 3/2, 0, -3/2, 3/2, 0, -3/2, 0, 0, 0, 0, 0, 0, 0, 0, 0, -3/2, 0, 3/2, -3/2, 0, 3/2, -3/2, 0, 3/2,
     3/2, 0, -3/2, 0, 0, 0, -3/2, 0, 3/2, 3/2, 0, -3/2, 0, 0, 0, -3/2, 0, 3/2, 3/2, 0, -3/2, 0, 0, 0, -3/2, 0, 3/2]"

definition quadratic_fit_3x3x3 ::
  "solver \<Rightarrow> dfloat list \<Rightarrow> dfloat \<Rightarrow> dfloat \<Rightarrow> dfloat \<Rightarrow> dfloat
     \<Rightarrow> bool \<times> dfloat \<times> dfloat \<times> dfloat \<times> dfloat" where
  "quadratic_fit_3x3x3 Solve t x y z val =
     (let a = least_squares w_3x3x3 t 10 27 18;
          b = [Finite 2 * a ! 4, a ! 9, a ! 8, a ! 9, Finite 2 * a ! 5, a ! 7, a ! 8, a ! 7,
               Finite 2 * a ! 6];
          c = [- a ! 1, - a ! 2, - a ! 3];
          c = Solve b c;
          x' = c ! 0;
          y' = c ! 1;
          z' = c ! 2
      in if x' < Finite (- 0.75) \<or> x' > Finite 0.75 \<or> y' < Finite (- 0.75) \<or> y' > Finite 0.75
            \<or> z' < Finite (- 0.75) \<or> z' > Finite 0.75
         then (False, x', y', z', val)
         else (True, x', y', z',
               a ! 0 + a ! 1 * x' + a ! 2 * y' + a ! 3 * z' + a ! 4 * x' * x' + a ! 5 * y' * y'
                 + a ! 6 * z' * z' + a ! 7 * y' * z' + a ! 8 * z' * x' + a ! 9 * x' * y'))"

subsection \<open>The logarithm transform\<close>

definition log_transform :: "dfloat list \<Rightarrow> bool \<Rightarrow> dfloat list" where
  "log_transform t invert =
     (if invert then map (\<lambda>v. std_log (- v)) t else map std_log t)"

subsection \<open>Images, results, errors\<close>

text \<open>
  Of \<^verbatim>\<open>dip::Image\<close> (declared outside this file) the model keeps what the functions
  here ask of it: \<^verbatim>\<open>IsForged()\<close>, \<^verbatim>\<open>TensorElements()\<close>, \<^verbatim>\<open>DataType().IsReal()\<close>,
  \<^verbatim>\<open>Sizes()\<close> and the samples. The samples are real numbers, a function of the integer
  coordinates; \<^verbatim>\<open>static_cast< dfloat >\<close> of a sample \<open>s\<close> is \<open>Finite s\<close>. The pointer
  arithmetic \<^verbatim>\<open>in + d * input.Stride( ii )\<close> is the sample whose coordinate \<open>ii\<close> is
  moved by \<open>d\<close>. Strides and the memory layout are not modelled.
\<close>

record Image =
  forged :: bool
  tensor_elements :: nat
  data_type_real :: bool
  sizes :: "nat list"
  sample :: "nat list \<Rightarrow> real"

definition Dimensionality :: "Image \<Rightarrow> nat" where
  "Dimensionality img = length (sizes img)"

definition IsScalar :: "Image \<Rightarrow> bool" where
  "IsScalar img = (tensor_elements img = 1)"

definition shift :: "nat list \<Rightarrow> nat \<Rightarrow> int \<Rightarrow> nat list" where
  "shift p ii d = p[ii := nat (int (p ! ii) + d)]"

record SubpixelLocationResult =
  coordinates :: "dfloat list"
  "value" :: dfloat

text \<open>
  The exceptions the functions throw, named after the message constants of the source.
  \<open>COORDINATES_OUT_OF_BOUNDS\<close> is the message "Initial coordinates out of image bounds".
\<close>

datatype error =
    IMAGE_NOT_FORGED
  | IMAGE_NOT_SCALAR
  | DATA_TYPE_NOT_SUPPORTED
  | DIMENSIONALITY_NOT_SUPPORTED
  | ARRAY_PARAMETER_WRONG_LENGTH
  | COORDINATES_OUT_OF_BOUNDS
  | INDEX_OUT_OF_RANGE
  | INVALID_FLAG string
  | ILLEGAL_DIMENSIONALITY
  | NTENSORELEM_DONT_MATCH
  | PARAMETER_OUT_OF_RANGE

text \<open>
  Modelled from the spec: \<^verbatim>\<open>Image::At\<close>, the checked sample access (declared outside
  this file); the spec has single-candidate localisation fail "when the coordinate is out
  of grid bounds".
\<close>

definition At :: "Image \<Rightarrow> nat list \<Rightarrow> error + dfloat" where
  "At img coords =
     (if list_all2 (<) coords (sizes img) then Inr (Finite (sample img coords))
      else Inl INDEX_OUT_OF_RANGE)"

subsection \<open>Methods and polarities\<close>

datatype SubpixelExtremumMethod =
    LINEAR
  | PARABOLIC_SEPARABLE
  | GAUSSIAN_SEPARABLE
  | PARABOLIC
  | GAUSSIAN
  | INTEGER

text \<open>
  Modelled from the spec: the string constants \<^verbatim>\<open>dip::S::LINEAR\<close>, ... (declared outside
  this file) that name the six methods and the two polarities of the spec. Only that they
  are pairwise distinct matters below.
\<close>

definition S_LINEAR :: string where "S_LINEAR = ''linear''"
definition S_PARABOLIC :: string where "S_PARABOLIC = ''parabolic''"
definition S_PARABOLIC_SEPARABLE :: string where "S_PARABOLIC_SEPARABLE = ''parabolic separable''"
definition S_GAUSSIAN :: string where "S_GAUSSIAN = ''gaussian''"
definition S_GAUSSIAN_SEPARABLE :: string where "S_GAUSSIAN_SEPARABLE = ''gaussian separable''"
definition S_INTEGER :: string where "S_INTEGER = ''integer''"
definition S_MINIMUM :: string where "S_MINIMUM = ''minimum''"
definition S_MAXIMUM :: string where "S_MAXIMUM = ''maximum''"

text \<open>
  Modelled from the spec: \<^verbatim>\<open>BooleanFromString\<close> (declared outside this file), which
  resolves a string-selected option "once at the API boundary": true for the first name,
  false for the second, an invalid-flag error for any other string.
\<close>

definition BooleanFromString :: "string \<Rightarrow> string \<Rightarrow> string \<Rightarrow> error + bool" where
  "BooleanFromString input trueString falseString =
     (if input = trueString then Inr True
      else if input = falseString then Inr False
      else Inl (INVALID_FLAG input))"

definition ParseMethod :: "string \<Rightarrow> nat \<Rightarrow> error + SubpixelExtremumMethod" where
  "ParseMethod s_method nDims =
     (case (if s_method = S_LINEAR then Inr LINEAR
            else if s_method = S_PARABOLIC then Inr PARABOLIC
            else if s_method = S_PARABOLIC_SEPARABLE then Inr PARABOLIC_SEPARABLE
            else if s_method = S_GAUSSIAN then Inr GAUSSIAN
            else if s_method = S_GAUSSIAN_SEPARABLE then Inr GAUSSIAN_SEPARABLE
            else if s_method = S_INTEGER then Inr INTEGER
            else Inl (INVALID_FLAG s_method)) of
        Inl e \<Rightarrow> Inl e
      | Inr method \<Rightarrow>
          if nDims = 1 then
            (let method = (if method = PARABOLIC then PARABOLIC_SEPARABLE else method);
                 method = (if method = GAUSSIAN then GAUSSIAN_SEPARABLE else method)
             in Inr method)
          else Inr method)"

subsection \<open>\<^verbatim>\<open>SubpixelLocationInternal\<close>\<close>

text \<open>
  A \<^verbatim>\<open>for( ii = 0; ii < nd; ++ii )\<close> loop whose body updates \<^verbatim>\<open>out\<close> is the fold of
  the body over the axes \<open>[0..<nd]\<close>.
  The body of the loop of \<^verbatim>\<open>case SubpixelExtremumMethod::LINEAR\<close>:
\<close>

definition linear_body ::
  "Image \<Rightarrow> nat list \<Rightarrow> bool \<Rightarrow> SubpixelLocationResult \<Rightarrow> nat \<Rightarrow> SubpixelLocationResult" where
  "linear_body input position invert out ii =
     (let t = [Finite (sample input (shift position ii (- 1))),
               Finite (sample input position),
               Finite (sample input (shift position ii 1))];
          t = (if invert then [- t ! 0, - t ! 1, - t ! 2] else t);
          b = std_min (t ! 0) (t ! 1);
          b = std_min b (t ! 2);
          t = [t ! 0 - b, t ! 1 - b, t ! 2 - b];
          m = t ! 0 + t ! 1 + t ! 2;
          out = out\<lparr>coordinates := (coordinates out)[ii := Finite (real (position ! ii))]\<rparr>
      in if m \<noteq> Finite 0
         then out\<lparr>coordinates := (coordinates out)[ii := coordinates out ! ii + (t ! 2 - t ! 0) / m]\<rparr>
         else out)"

text \<open>
  The body of the loop of the \<^verbatim>\<open>default:\<close> case, which the two separable methods reach.
\<close>

definition separable_body ::
  "Image \<Rightarrow> nat list \<Rightarrow> SubpixelExtremumMethod \<Rightarrow> bool \<Rightarrow> SubpixelLocationResult \<Rightarrow> nat
     \<Rightarrow> SubpixelLocationResult" where
  "separable_body input position method invert out ii =
     (let t = [Finite (sample input (shift position ii (- 1))),
               Finite (sample input position),
               Finite (sample input (shift position ii 1))];
          inverted = (method = GAUSSIAN_SEPARABLE \<and> t ! 1 < Finite 0);
          t = (if method = GAUSSIAN_SEPARABLE then log_transform t inverted else t);
          out = out\<lparr>coordinates := (coordinates out)[ii := Finite (real (position ! ii))]\<rparr>;
          m = t ! 0 - Finite 2 * t ! 1 + t ! 2
      in if m \<noteq> Finite 0
         then
           let out = out\<lparr>coordinates :=
                       (coordinates out)[ii := coordinates out ! ii + (t ! 0 - t ! 2) / (Finite 2 * m)]\<rparr>;
               b = t ! 1 - (t ! 0 - t ! 2) * (t ! 0 - t ! 2) / (Finite 8 * m);
               b = (if method = GAUSSIAN_SEPARABLE
                    then (let b = std_exp b in if inverted then - b else b) else b)
           in out\<lparr>value := (if invert then std_min (value out) b else std_max (value out) b)\<rparr>
         else out)"

text \<open>
  The stencils of the joint fits, in the order in which the nested loops fill \<^verbatim>\<open>t\<close>
  (\<^verbatim>\<open>ii\<close> innermost).
\<close>

definition stencil_3x3 :: "Image \<Rightarrow> nat list \<Rightarrow> dfloat list" where
  "stencil_3x3 input position =
     concat (map (\<lambda>jj. map (\<lambda>ii. Finite (sample input (shift (shift position 0 ii) 1 jj)))
                          [- 1, 0, 1]) [- 1, 0, 1])"

definition stencil_3x3x3 :: "Image \<Rightarrow> nat list \<Rightarrow> dfloat list" where
  "stencil_3x3x3 input position =
     concat (map (\<lambda>kk. concat (map (\<lambda>jj.
        map (\<lambda>ii. Finite (sample input (shift (shift (shift position 0 ii) 1 jj) 2 kk)))
            [- 1, 0, 1]) [- 1, 0, 1])) [- 1, 0, 1])"

text \<open>
  \<^verbatim>\<open>case 2:\<close> and \<^verbatim>\<open>case 3:\<close> of the joint methods. Each takes \<^verbatim>\<open>out\<close> and \<^verbatim>\<open>val\<close>
  and returns both as they are when control leaves the inner \<^verbatim>\<open>switch( nd )\<close>.
\<close>

definition joint_2D ::
  "Image \<Rightarrow> nat list \<Rightarrow> SubpixelExtremumMethod \<Rightarrow> SubpixelLocationResult \<Rightarrow> dfloat
     \<Rightarrow> SubpixelLocationResult \<times> dfloat" where
  "joint_2D input position method out val =
     (let t = stencil_3x3 input position;
          inverted = (method = GAUSSIAN \<and> t ! 4 < Finite 0);
          t = (if method = GAUSSIAN then log_transform t inverted else t);
          out = out\<lparr>coordinates := (coordinates out)[0 := Finite (real (position ! 0))]\<rparr>;
          out = out\<lparr>coordinates := (coordinates out)[1 := Finite (real (position ! 1))]\<rparr>
      in case quadratic_fit_3x3 t (Finite 0) (Finite 0) val of
           (True, x, y, val) \<Rightarrow>
             let out = out\<lparr>coordinates := (coordinates out)[0 := coordinates out ! 0 + x]\<rparr>;
                 out = out\<lparr>coordinates := (coordinates out)[1 := coordinates out ! 1 + y]\<rparr>;
                 val = (if method = GAUSSIAN
                        then (let val = std_exp val in if inverted then - val else val)
                        else val)
             in (out, val)
         | (False, x, y, val) \<Rightarrow> (out, val))"

definition joint_3D ::
  "solver \<Rightarrow> Image \<Rightarrow> nat list \<Rightarrow> SubpixelExtremumMethod \<Rightarrow> SubpixelLocationResult \<Rightarrow> dfloat
     \<Rightarrow> SubpixelLocationResult \<times> dfloat" where
  "joint_3D Solve input position method out val =
     (let t = stencil_3x3x3 input position;
          inverted = (method = GAUSSIAN \<and> t ! 13 < Finite 0);
          t = (if method = GAUSSIAN then log_transform t inverted else t);
          out = out\<lparr>coordinates := (coordinates out)[0 := Finite (real (position ! 0))]\<rparr>;
          out = out\<lparr>coordinates := (coordinates out)[1 := Finite (real (position ! 1))]\<rparr>;
          out = out\<lparr>coordinates := (coordinates out)[2 := Finite (real (position ! 2))]\<rparr>
      in case quadratic_fit_3x3x3 Solve t (Finite 0) (Finite 0) (Finite 0) val of
           (True, x, y, z, val) \<Rightarrow>
             let out = out\<lparr>coordinates := (coordinates out)[0 := coordinates out ! 0 + x]\<rparr>;
                 out = out\<lparr>coordinates := (coordinates out)[1 := coordinates out ! 1 + y]\<rparr>;
                 out = out\<lparr>coordinates := (coordinates out)[2 := coordinates out ! 2 + z]\<rparr>;
                 val = (if method = GAUSSIAN
                        then (let val = std_exp val in if inverted then - val else val)
                        else val)
             in (out, val)
         | (False, x, y, z, val) \<Rightarrow> (out, val))"

text \<open>The body of the loop of \<^verbatim>\<open>case SubpixelExtremumMethod::INTEGER\<close>.\<close>

definition integer_body ::
  "nat list \<Rightarrow> SubpixelLocationResult \<Rightarrow> nat \<Rightarrow> SubpixelLocationResult" where
  "integer_body position out ii =
     out\<lparr>coordinates := (coordinates out)[ii := Finite (real (position ! ii))]\<rparr>"

text \<open>
  \<^verbatim>\<open>case SubpixelExtremumMethod::PARABOLIC: case SubpixelExtremumMethod::GAUSSIAN:\<close>
  with its local \<^verbatim>\<open>dfloat val{}\<close>, the inner switch and the final clamp
  ("Don't allow the value to be lower than that of the maximal pixel's value").
\<close>

definition joint_fit ::
  "solver \<Rightarrow> Image \<Rightarrow> nat list \<Rightarrow> SubpixelExtremumMethod \<Rightarrow> bool \<Rightarrow> SubpixelLocationResult
     \<Rightarrow> error + SubpixelLocationResult" where
  "joint_fit Solve input position method invert out =
     (let nd = Dimensionality input;
          val = Finite 0
      in case (if nd = 2 then Inr (joint_2D input position method out val)
               else if nd = 3 then Inr (joint_3D Solve input position method out val)
               else Inl ILLEGAL_DIMENSIONALITY) of
           Inl e \<Rightarrow> Inl e
         | Inr (out, val) \<Rightarrow>
             Inr (out\<lparr>value := (if invert then std_min (value out) val
                                 else std_max (value out) val)\<rparr>))"

text \<open>
  \<^verbatim>\<open>SubpixelLocationInternal\<close> is called with interior positions only (after the border
  loop of \<^verbatim>\<open>SubpixelLocation\<close>), where every neighbour it reads is inside the image; the
  bounds check of \<^verbatim>\<open>input.Pointer( position )\<close> is not modelled. The \<^verbatim>\<open>default:\<close>
  label of the switch stands for the two separable methods.
\<close>

definition SubpixelLocationInternal ::
  "solver \<Rightarrow> Image \<Rightarrow> nat list \<Rightarrow> SubpixelExtremumMethod \<Rightarrow> bool
     \<Rightarrow> error + SubpixelLocationResult" where
  "SubpixelLocationInternal Solve input position method invert =
     (let nd = Dimensionality input;
          out = \<lparr>coordinates = replicate nd (Finite 0), value = Finite (sample input position)\<rparr>
      in case method of
           LINEAR \<Rightarrow> Inr (foldl (linear_body input position invert) out [0..<nd])
         | PARABOLIC_SEPARABLE \<Rightarrow>
             Inr (foldl (separable_body input position method invert) out [0..<nd])
         | GAUSSIAN_SEPARABLE \<Rightarrow>
             Inr (foldl (separable_body input position method invert) out [0..<nd])
         | PARABOLIC \<Rightarrow> joint_fit Solve input position method invert out
         | GAUSSIAN \<Rightarrow> joint_fit Solve input position method invert out
         | INTEGER \<Rightarrow> Inr (foldl (integer_body position) out [0..<nd]))"

subsection \<open>\<^verbatim>\<open>SubpixelLocation\<close>\<close>

text \<open>
  \<^verbatim>\<open>dip::uint\<close> is unsigned and 64 bits wide: \<^verbatim>\<open>in.Size( ii ) - 1\<close> wraps to
  \<open>2\<^sup>6\<^sup>4 - 1\<close> when the size is \<open>0\<close>.
\<close>

definition uint_minus_1 :: "nat \<Rightarrow> nat" where
  "uint_minus_1 n = (if n = 0 then 2 ^ 64 - 1 else n - 1)"

text \<open>
  The loop over the axes that looks for a coordinate on the image border. \<open>None\<close>: the
  loop ran to its end; \<open>Some r\<close>: the function left from inside the loop, by the throw or
  by the \<^verbatim>\<open>return out\<close>.
\<close>

fun border_loop :: "Image \<Rightarrow> nat list \<Rightarrow> nat list \<Rightarrow> (error + SubpixelLocationResult) option" where
  "border_loop input position [] = None"
| "border_loop input position (ii # axes) =
     (if position ! ii < 1 \<or> position ! ii \<ge> uint_minus_1 (sizes input ! ii)
      then (if position ! ii \<ge> sizes input ! ii then Some (Inl COORDINATES_OUT_OF_BOUNDS)
            else (case At input position of
                    Inl e \<Rightarrow> Some (Inl e)
                  | Inr v \<Rightarrow>
                      Some (Inr \<lparr>coordinates = map (\<lambda>p. Finite (real p)) position, value = v\<rparr>)))
      else border_loop input position axes)"

definition SubpixelLocation ::
  "solver \<Rightarrow> Image \<Rightarrow> nat list \<Rightarrow> string \<Rightarrow> string \<Rightarrow> error + SubpixelLocationResult" where
  "SubpixelLocation Solve input position polarity s_method =
     (if \<not> forged input then Inl IMAGE_NOT_FORGED
      else if \<not> IsScalar input then Inl IMAGE_NOT_SCALAR
      else if \<not> data_type_real input then Inl DATA_TYPE_NOT_SUPPORTED
      else
        let nDims = Dimensionality input
        in if nDims < 1 then Inl DIMENSIONALITY_NOT_SUPPORTED
           else if length position \<noteq> nDims then Inl ARRAY_PARAMETER_WRONG_LENGTH
           else
             case border_loop input position [0..<nDims] of
               Some r \<Rightarrow> r
             | None \<Rightarrow>
                 (case BooleanFromString polarity S_MINIMUM S_MAXIMUM of
                    Inl e \<Rightarrow> Inl e
                  | Inr invert \<Rightarrow>
                      (case ParseMethod s_method nDims of
                         Inl e \<Rightarrow> Inl e
                       | Inr method \<Rightarrow>
                           SubpixelLocationInternal Solve input position method invert)))"

subsection \<open>\<^verbatim>\<open>MeanShift\<close>\<close>

text \<open>
  In \<^verbatim>\<open>MeanShift\<close> the start, \<^verbatim>\<open>epsilon\<close> and the interpolated vectors are real
  numbers.
  \<^verbatim>\<open>ResampleAtUnchecked\<close> with the cubic interpolator that \<^verbatim>\<open>PrepareResampleAtUnchecked\<close>
  returns is declared outside this file: it is a parameter, a function of the image and the
  point that gives the interpolated vector. The \<^verbatim>\<open>do ... while\<close> loop has no bound in the
  source; the model counts the rounds it may still run in \<open>fuel\<close> (one round is one
  interpolation) and \<open>None\<close> is the loop that does not end within them.
\<close>

definition norm_square :: "real list \<Rightarrow> real" where
  "norm_square v = sum_list (map (\<lambda>x. x * x) v)"

fun MeanShift_loop ::
  "nat \<Rightarrow> (real list \<Rightarrow> real list) \<Rightarrow> real \<Rightarrow> real list \<Rightarrow> real list option" where
  "MeanShift_loop 0 resample epsilon pt = None"
| "MeanShift_loop (Suc fuel) resample epsilon pt =
     (let meanShift = resample pt;
          pt = map2 (+) pt meanShift;
          distance = norm_square meanShift
      in if distance > epsilon then MeanShift_loop fuel resample epsilon pt else Some pt)"

definition MeanShift ::
  "nat \<Rightarrow> (Image \<Rightarrow> real list \<Rightarrow> real list) \<Rightarrow> Image \<Rightarrow> real list \<Rightarrow> real
     \<Rightarrow> (error + real list) option" where
  "MeanShift fuel ResampleAtUnchecked meanShiftVectorResult start epsilon =
     (if \<not> forged meanShiftVectorResult then Some (Inl IMAGE_NOT_FORGED)
      else
        let nDims = Dimensionality meanShiftVectorResult
        in if tensor_elements meanShiftVectorResult \<noteq> nDims then Some (Inl NTENSORELEM_DONT_MATCH)
           else if \<not> data_type_real meanShiftVectorResult then Some (Inl DATA_TYPE_NOT_SUPPORTED)
           else if length start \<noteq> nDims then Some (Inl ARRAY_PARAMETER_WRONG_LENGTH)
           else if epsilon \<le> 0 then Some (Inl PARAMETER_OUT_OF_RANGE)
           else
             let epsilon = epsilon * epsilon
             in map_option Inr
                  (MeanShift_loop fuel (ResampleAtUnchecked meanShiftVectorResult) epsilon start))"

subsection \<open>Candidates\<close>

text \<open>
  A candidate is in bounds when it has one coordinate per axis, each below the size of its
  axis. It is within one sample of a boundary when some coordinate is \<open>0\<close> or at least the
  size of its axis minus one; it is interior when it is in bounds and no coordinate is so.
\<close>

definition in_bounds :: "Image \<Rightarrow> nat list \<Rightarrow> bool" where
  "in_bounds input position = list_all2 (<) position (sizes input)"

definition near_border :: "Image \<Rightarrow> nat list \<Rightarrow> bool" where
  "near_border input position =
     list_ex (\<lambda>(p, n). p < 1 \<or> p \<ge> n - 1) (zip position (sizes input))"

definition interior :: "Image \<Rightarrow> nat list \<Rightarrow> bool" where
  "interior input position = list_all2 (\<lambda>p n. 1 \<le> p \<and> p + 1 < n) position (sizes input)"

text \<open>
  A returned coordinate is within \<open>tol\<close> of the candidate's coordinate \<open>p\<close> when it is a
  real number whose distance to \<open>p\<close> is at most \<open>tol\<close>.
\<close>

definition offset_within :: "real \<Rightarrow> nat \<Rightarrow> dfloat \<Rightarrow> bool" where
  "offset_within tol p c = (case c of Finite x \<Rightarrow> \<bar>x - real p\<bar> \<le> tol | _ \<Rightarrow> False)"

text \<open>
  The samples of a stencil \<open>t\<close> are non-zero and have the sign of the sample \<open>c\<close> when each
  of their products with \<open>c\<close> is positive.
\<close>

definition same_sign :: "dfloat list \<Rightarrow> dfloat \<Rightarrow> bool" where
  "same_sign t c = list_all (\<lambda>v. Finite 0 < v * c) t"

subsection \<open>Test data\<close>

text \<open>
  The test case "2D parabola" of the source samples
  \<^verbatim>\<open>p2(x, y) = v - (p1(x - cx) + p1(y - cy))\<close>, \<^verbatim>\<open>p1(x) = x * x\<close>, on the stencil in
  the order \<^verbatim>\<open>p2(-1,-1), p2(0,-1), p2(1,-1), p2(-1,0), ...\<close>.
\<close>

definition p1 :: "real \<Rightarrow> real" where
  "p1 x = x * x"

definition p2 :: "real \<Rightarrow> real \<Rightarrow> real \<Rightarrow> real \<Rightarrow> real \<Rightarrow> real" where
  "p2 cx cy v x y = v - (p1 (x - cx) + p1 (y - cy))"

definition parabola_2D :: "real \<Rightarrow> real \<Rightarrow> real \<Rightarrow> dfloat list" where
  "parabola_2D cx cy v =
     [Finite (p2 cx cy v (-1) (-1)), Finite (p2 cx cy v 0 (-1)), Finite (p2 cx cy v 1 (-1)),
      Finite (p2 cx cy v (-1) 0),    Finite (p2 cx cy v 0 0),    Finite (p2 cx cy v 1 0),
      Finite (p2 cx cy v (-1) 1),    Finite (p2 cx cy v 0 1),    Finite (p2 cx cy v 1 1)]"

text \<open>
  \<^verbatim>\<open>dip::Image img2d{ data, { 3, 3 }}\<close> of the same test: the 3x3 image whose samples are
  the paraboloid, the stencil centre at coordinates \<open>(1, 1)\<close>.
\<close>

definition img2d :: "real \<Rightarrow> real \<Rightarrow> real \<Rightarrow> Image" where
  "img2d cx cy v =
     \<lparr>forged = True, tensor_elements = 1, data_type_real = True, sizes = [3, 3],
      sample = (\<lambda>p. p2 cx cy v (real (p ! 0) - 1) (real (p ! 1) - 1))\<rparr>"

text \<open>Further images for the examples: a constant 3x3 image and a 3-sample line.\<close>

definition constant_3x3 :: "real \<Rightarrow> Image" where
  "constant_3x3 c =
     \<lparr>forged = True, tensor_elements = 1, data_type_real = True, sizes = [3, 3],
      sample = (\<lambda>p. c)\<rparr>"

definition line_3 :: "real \<Rightarrow> real \<Rightarrow> real \<Rightarrow> Image" where
  "line_3 a b c =
     \<lparr>forged = True, tensor_elements = 1, data_type_real = True, sizes = [3],
      sample = (\<lambda>p. [a, b, c] ! (p ! 0))\<rparr>"

definition negate_image :: "Image \<Rightarrow> Image" where
  "negate_image img = img\<lparr>sample := (\<lambda>p. - sample img p)\<rparr>"

definition negate_value :: "SubpixelLocationResult \<Rightarrow> SubpixelLocationResult" where
  "negate_value r = r\<lparr>value := - value r\<rparr>"

text \<open>
  A single non-zero sample \<open>c\<close> at the centre of a 3x3 image of zeros.
\<close>

definition spot_3x3 :: "real \<Rightarrow> Image" where
  "spot_3x3 c =
     \<lparr>forged = True, tensor_elements = 1, data_type_real = True, sizes = [3, 3],
      sample = (\<lambda>p. if p = [1, 1] then c else 0)\<rparr>"

text \<open>
  An exact solver for the 3x3 system, by Cramer's rule, to put in the place of the
  parameter \<^verbatim>\<open>Solve\<close> in the examples: \<open>b\<close> holds the matrix row by row.
\<close>

definition det_3x3 :: "dfloat list \<Rightarrow> dfloat" where
  "det_3x3 b =
     b ! 0 * (b ! 4 * b ! 8 - b ! 5 * b ! 7) - b ! 1 * (b ! 3 * b ! 8 - b ! 5 * b ! 6)
       + b ! 2 * (b ! 3 * b ! 7 - b ! 4 * b ! 6)"

definition Cramer :: solver where
  "Cramer b c =
     (let d = det_3x3 b
      in if d = Finite 0 then [Finite 0, Finite 0, Finite 0]
         else [det_3x3 [c ! 0, b ! 1, b ! 2, c ! 1, b ! 4, b ! 5, c ! 2, b ! 7, b ! 8] / d,
               det_3x3 [b ! 0, c ! 0, b ! 2, b ! 3, c ! 1, b ! 5, b ! 6, c ! 2, b ! 8] / d,
               det_3x3 [b ! 0, b ! 1, c ! 0, b ! 3, b ! 4, c ! 1, b ! 6, b ! 7, c ! 2] / d])"

text \<open>A vector field of two components on a 4x4 grid, and the interpolation that is zero everywhere.\<close>

definition field_4x4 :: Image where
  "field_4x4 =
     \<lparr>forged = True, tensor_elements = 2, data_type_real = True, sizes = [4, 4],
      sample = (\<lambda>p. 0)\<rparr>"

definition zero_resample :: "Image \<Rightarrow> real list \<Rightarrow> real list" where
  "zero_resample img pt = replicate (Dimensionality img) 0"

section \<open>Properties\<close>

subsection \<open>Arithmetic of doubles\<close>

lemma minus_Finite [simp]: "Finite x - Finite y = Finite (x - y)"
  by (simp add: minus_dfloat_def)

lemma neg_neg [simp]: "- (- a) = (a :: dfloat)"
  by (cases a) simp_all

lemma neg_plus_neg: "(- a) + (- b) = - (a + b :: dfloat)"
  by (cases a; cases b) simp_all

lemma neg_minus_neg: "(- a) - (- b) = - (a - b :: dfloat)"
  by (cases a; cases b) (simp_all add: minus_dfloat_def)

lemma times_neg_right: "a * (- b) = - (a * b :: dfloat)"
  by (cases a; cases b) auto

lemma times_neg_left: "(- a) * b = - (a * b :: dfloat)"
  by (cases a; cases b) auto

lemma divide_neg_left: "(- a) / b = - (a / b :: dfloat)"
  by (cases a; cases b) auto

lemma divide_neg_neg: "b \<noteq> Finite 0 \<Longrightarrow> (- a) / (- b) = (a / b :: dfloat)"
  by (cases a; cases b) (auto simp: not_le)

lemma less_neg_neg: "(- a < - b) = (b < (a :: dfloat))"
  by (cases a; cases b) simp_all

lemma neg_eq_zero [simp]: "(- a = Finite 0) = (a = Finite 0)"
  by (cases a) simp_all

lemma std_max_neg: "std_max (- a) (- b) = - std_min a b"
  by (simp add: std_max_def std_min_def less_neg_neg)

lemmas neg_out = neg_plus_neg neg_minus_neg times_neg_right times_neg_left divide_neg_left

lemmas S_defs = S_LINEAR_def S_PARABOLIC_def S_PARABOLIC_SEPARABLE_def S_GAUSSIAN_def
  S_GAUSSIAN_SEPARABLE_def S_INTEGER_def S_MINIMUM_def S_MAXIMUM_def

lemma upt_1: "[0..<1] = [0]" by code_simp
lemma upt_2: "[0..<2] = [0, 1]" by code_simp
lemma upt_3: "[0..<3] = [0, 1, 2]" by code_simp
lemma upt_6: "[0..<6] = [0, 1, 2, 3, 4, 5]" by code_simp
lemma upt_9: "[0..<9] = [0, 1, 2, 3, 4, 5, 6, 7, 8]" by code_simp

subsection \<open>The least-squares solution on finite samples\<close>

lemma foldl_Finite:
  assumes "\<forall>jj\<in>set js. jj < length ts"
  shows "foldl (\<lambda>acc jj. acc + Finite (c jj) * map Finite ts ! jj) (Finite a) js
           = Finite (foldl (\<lambda>acc jj. acc + c jj * ts ! jj) a js)"
  using assms by (induction js arbitrary: a) simp_all

lemma least_squares_Finite:
  assumes "length ts = n" "d \<noteq> 0"
  shows "least_squares w (map Finite ts) rows n d
           = map (\<lambda>ii. Finite (foldl (\<lambda>acc jj. acc + w ! (ii * n + jj) * ts ! jj) 0 [0..<n] / d))
               [0..<rows]"
  using assms by (simp add: least_squares_def foldl_Finite)

lemma length_least_squares: "length (least_squares w t rows n d) = rows"
  by (simp add: least_squares_def)

subsection \<open>The joint parabolic fit on a paraboloid\<close>

lemma least_squares_parabola_2D:
  "least_squares w_3x3 (parabola_2D cx cy v) 6 9 6 =
     [Finite (v - cx * cx - cy * cy), Finite (2 * cx), Finite (2 * cy),
      Finite (- 1), Finite (- 1), Finite 0]"
proof -
  have p: "parabola_2D cx cy v = map Finite
     [p2 cx cy v (-1) (-1), p2 cx cy v 0 (-1), p2 cx cy v 1 (-1),
      p2 cx cy v (-1) 0,    p2 cx cy v 0 0,    p2 cx cy v 1 0,
      p2 cx cy v (-1) 1,    p2 cx cy v 0 1,    p2 cx cy v 1 1]"
    by (simp add: parabola_2D_def)
  show ?thesis
    unfolding p
    by (subst least_squares_Finite)
       (simp_all add: upt_6 upt_9 w_3x3_def p2_def p1_def field_simps)
qed

text \<open>
  C4. Sampling the paraboloid \<open>v - ((x - cx)\<^sup>2 + (y - cy)\<^sup>2)\<close> on the 3x3 stencil, with
  \<open>cx\<close> and \<open>cy\<close> in \<open>[-0.75, 0.75]\<close>, the joint parabolic fit succeeds and returns
  exactly \<open>x = cx\<close>, \<open>y = cy\<close> and \<open>val = v\<close> (in exact arithmetic), whatever the
  out-parameters held before.
\<close>

theorem quadratic_fit_3x3_recovers_paraboloid:
  assumes "- 0.75 \<le> cx" "cx \<le> 0.75" "- 0.75 \<le> cy" "cy \<le> 0.75"
  shows "quadratic_fit_3x3 (parabola_2D cx cy v) x0 y0 val0 = (True, Finite cx, Finite cy, Finite v)"
  using assms
  by (simp add: quadratic_fit_3x3_def least_squares_parabola_2D Let_def field_simps)

theorem quadratic_fit_3x3_recovers_paraboloid_witness:
  "quadratic_fit_3x3 (parabola_2D 0.3715 (- 0.0396) 4.0125) (Finite 0) (Finite 0) (Finite 0)
     = (True, Finite 0.3715, Finite (- 0.0396), Finite 4.0125)"
  using quadratic_fit_3x3_recovers_paraboloid
          [of "0.3715" "- 0.0396" "4.0125" "Finite 0" "Finite 0" "Finite 0"]
  by simp

subsection \<open>Candidates on the border\<close>

lemma border_loop_interior:
  assumes "\<forall>ii\<in>set axes. 1 \<le> position ! ii \<and> position ! ii + 1 < sizes input ! ii"
  shows "border_loop input position axes = None"
  using assms by (induction axes) (auto simp: uint_minus_1_def)

lemma border_loop_border:
  assumes "list_all2 (<) position (sizes input)"
    and "set axes \<subseteq> {..<length position}"
    and "\<exists>ii\<in>set axes. position ! ii < 1 \<or> position ! ii \<ge> sizes input ! ii - 1"
  shows "border_loop input position axes =
           Some (Inr \<lparr>coordinates = map (\<lambda>p. Finite (real p)) position,
                      value = Finite (sample input position)\<rparr>)"
  using assms
proof (induction axes)
  case Nil
  then show ?case by simp
next
  case (Cons ii axes)
  from Cons.prems(1,2) have lt: "position ! ii < sizes input ! ii"
    by (simp add: list_all2_conv_all_nth)
  then have um: "uint_minus_1 (sizes input ! ii) = sizes input ! ii - 1"
    by (simp add: uint_minus_1_def)
  show ?case
  proof (cases "position ! ii < 1 \<or> position ! ii \<ge> sizes input ! ii - 1")
    case True
    with lt um Cons.prems(1) show ?thesis by (simp add: At_def)
  next
    case False
    with Cons.prems have "\<exists>k\<in>set axes. position ! k < 1 \<or> position ! k \<ge> sizes input ! k - 1"
      by auto
    with Cons.IH Cons.prems False um show ?thesis by simp
  qed
qed

lemma near_border_nth:
  assumes "near_border input position" "length position = length (sizes input)"
  shows "\<exists>ii\<in>set [0..<length position]. position ! ii < 1 \<or> position ! ii \<ge> sizes input ! ii - 1"
proof -
  from assms(1) obtain p n where pn: "(p, n) \<in> set (zip position (sizes input))"
      and b: "p < 1 \<or> p \<ge> n - 1"
    by (auto simp: near_border_def list_ex_iff)
  from pn obtain ii where "ii < length position" "position ! ii = p" "sizes input ! ii = n"
    using assms(2) by (auto simp: set_zip)
  with b show ?thesis by auto
qed

text \<open>
  C1. For a forged, scalar, real-valued image and a candidate in bounds that lies within
  one sample of a boundary along some axis, \<open>SubpixelLocation\<close> returns the candidate's own
  coordinates and the raw sample there. The result is the same for every polarity string,
  every method string and every solver, valid or not: none of them is consulted and no fit
  is run.
\<close>

theorem SubpixelLocation_on_border:
  assumes "forged input" "IsScalar input" "data_type_real input"
    and "in_bounds input position" "near_border input position"
  shows "SubpixelLocation Solve input position polarity s_method =
           Inr \<lparr>coordinates = map (\<lambda>p. Finite (real p)) position,
                      value = Finite (sample input position)\<rparr>"
proof -
  from assms(4) have len: "length position = length (sizes input)"
    by (simp add: in_bounds_def list_all2_lengthD)
  from near_border_nth [OF assms(5) len] have ex:
    "\<exists>ii\<in>set [0..<length position]. position ! ii < 1 \<or> position ! ii \<ge> sizes input ! ii - 1" .
  then have pos: "0 < length position" by auto
  have "border_loop input position [0..<length position] =
          Some (Inr \<lparr>coordinates = map (\<lambda>p. Finite (real p)) position,
                      value = Finite (sample input position)\<rparr>)"
    using assms(4) ex by (intro border_loop_border) (auto simp: in_bounds_def)
  with assms(1-3) len pos show ?thesis
    by (simp add: SubpixelLocation_def Dimensionality_def)
qed

theorem SubpixelLocation_on_border_witness:
  "forged (img2d (1/4) (- 1/2) 4) \<and> IsScalar (img2d (1/4) (- 1/2) 4)
   \<and> data_type_real (img2d (1/4) (- 1/2) 4) \<and> in_bounds (img2d (1/4) (- 1/2) 4) [0, 1]
   \<and> near_border (img2d (1/4) (- 1/2) 4) [0, 1]
   \<and> SubpixelLocation Cramer (img2d (1/4) (- 1/2) 4) [0, 1] ''no polarity'' ''no method''
       = Inr \<lparr>coordinates = [Finite 0, Finite 1], value = Finite (35 / 16)\<rparr>"
proof -
  have h: "forged (img2d (1/4) (- 1/2) 4)" "IsScalar (img2d (1/4) (- 1/2) 4)"
    "data_type_real (img2d (1/4) (- 1/2) 4)" "in_bounds (img2d (1/4) (- 1/2) 4) [0, 1]"
    "near_border (img2d (1/4) (- 1/2) 4) [0, 1]"
    by (simp_all add: img2d_def IsScalar_def in_bounds_def near_border_def)
  have "sample (img2d (1/4) (- 1/2) 4) [0, 1] = 35 / 16"
    by (simp add: img2d_def p2_def p1_def)
  with h SubpixelLocation_on_border [OF h, of Cramer "''no polarity''" "''no method''"]
  show ?thesis by simp
qed

lemma interior_length: "interior input position \<Longrightarrow> length position = length (sizes input)"
  by (simp add: interior_def list_all2_lengthD)

lemma interior_nth:
  "interior input position \<Longrightarrow> ii < length (sizes input)
     \<Longrightarrow> 1 \<le> position ! ii \<and> position ! ii + 1 < sizes input ! ii"
  by (simp add: interior_def list_all2_conv_all_nth)

lemma border_loop_of_interior:
  assumes "interior input position"
  shows "border_loop input position [0..<Dimensionality input] = None"
  using interior_nth [OF assms]
  by (intro border_loop_interior) (simp add: Dimensionality_def)

lemma interior_img2d: "interior (img2d cx cy v) [Suc 0, Suc 0]"
  by (simp add: interior_def img2d_def)

lemma stencil_3x3_img2d: "stencil_3x3 (img2d cx cy v) [Suc 0, Suc 0] = parabola_2D cx cy v"
  by (simp add: stencil_3x3_def img2d_def parabola_2D_def shift_def)

lemma sample_img2d: "sample (img2d cx cy v) [Suc 0, Suc 0] = v - cx * cx - cy * cy"
  by (simp add: img2d_def p2_def p1_def)

lemma SubpixelLocation_img2d:
  assumes "- 0.75 \<le> cx" "cx \<le> 0.75" "- 0.75 \<le> cy" "cy \<le> 0.75"
  shows "SubpixelLocation Solve (img2d cx cy v) [1, 1] S_MAXIMUM S_PARABOLIC
           = Inr \<lparr>coordinates = [Finite (1 + cx), Finite (1 + cy)], value = Finite v\<rparr>"
proof -
  have fit: "quadratic_fit_3x3 (parabola_2D cx cy v) (Finite 0) (Finite 0) (Finite 0)
               = (True, Finite cx, Finite cy, Finite v)"
    using assms by (simp add: quadratic_fit_3x3_def least_squares_parabola_2D Let_def field_simps)
  have f: "forged (img2d cx cy v)" "tensor_elements (img2d cx cy v) = 1"
    "data_type_real (img2d cx cy v)" "sizes (img2d cx cy v) = [3, 3]"
    by (simp_all add: img2d_def)
  have "r \<le> v \<Longrightarrow> std_max (Finite r) (Finite v) = Finite v" for r
    by (auto simp: std_max_def)
  moreover have "v - cx * cx - cy * cy \<le> v"
    using zero_le_square [of cx] zero_le_square [of cy] by linarith
  ultimately have m: "std_max (Finite (v - cx * cx - cy * cy)) (Finite v) = Finite v"
    by blast
  show ?thesis
    by (simp add: SubpixelLocation_def IsScalar_def Dimensionality_def upt_2 f sample_img2d
       stencil_3x3_img2d fit m
       uint_minus_1_def BooleanFromString_def ParseMethod_def S_defs SubpixelLocationInternal_def
       joint_fit_def joint_2D_def Let_def)
qed

subsection \<open>Unsupported configurations\<close>

lemma ParseMethod_unknown:
  assumes "s_method \<notin> {S_LINEAR, S_PARABOLIC, S_PARABOLIC_SEPARABLE, S_GAUSSIAN,
                        S_GAUSSIAN_SEPARABLE, S_INTEGER}"
  shows "ParseMethod s_method nDims = Inl (INVALID_FLAG s_method)"
  using assms by (simp add: ParseMethod_def)

lemma ParseMethod_joint:
  assumes "s_method \<in> {S_PARABOLIC, S_GAUSSIAN}" "nDims \<noteq> 1"
  shows "ParseMethod s_method nDims = Inr PARABOLIC \<or> ParseMethod s_method nDims = Inr GAUSSIAN"
  using assms by (auto simp: ParseMethod_def S_defs)

lemma joint_fit_illegal_dimensionality:
  assumes "Dimensionality input \<notin> {2, 3}"
  shows "joint_fit Solve input position method invert out = Inl ILLEGAL_DIMENSIONALITY"
  using assms by (simp add: joint_fit_def)

text \<open>
  The border loop of \<open>SubpixelLocation\<close> returns before the polarity and the method are
  parsed: for a candidate on the border, a method string that names no method is not
  rejected.
\<close>

theorem SubpixelLocation_unknown_method_on_border:
  "in_bounds (constant_3x3 5) [0, 1]
   \<and> ''bogus'' \<notin> {S_LINEAR, S_PARABOLIC, S_PARABOLIC_SEPARABLE, S_GAUSSIAN,
                   S_GAUSSIAN_SEPARABLE, S_INTEGER}
   \<and> SubpixelLocation Cramer (constant_3x3 5) [0, 1] S_MAXIMUM ''bogus''
       = Inr \<lparr>coordinates = [Finite 0, Finite 1], value = Finite 5\<rparr>"
  by (simp add: in_bounds_def constant_3x3_def S_defs SubpixelLocation_def IsScalar_def
      Dimensionality_def upt_2 uint_minus_1_def At_def)

text \<open>
  C6, amended. For an interior candidate, \<open>SubpixelLocation\<close> called with a method string
  that is none of the six method names, or with the joint Parabolic or Gaussian method on
  an image whose dimensionality is not 1, 2 or 3, returns no result: it throws, whatever
  the polarity string and the solver.
\<close>

theorem SubpixelLocation_unsupported_configuration:
  assumes "interior input position"
    and "s_method \<notin> {S_LINEAR, S_PARABOLIC, S_PARABOLIC_SEPARABLE, S_GAUSSIAN,
                       S_GAUSSIAN_SEPARABLE, S_INTEGER}
         \<or> (s_method \<in> {S_PARABOLIC, S_GAUSSIAN} \<and> Dimensionality input \<notin> {1, 2, 3})"
  shows "\<exists>e. SubpixelLocation Solve input position polarity s_method = Inl e"
proof -
  note bl = border_loop_of_interior [OF assms(1)]
  from assms(2) show ?thesis
  proof
    assume "s_method \<notin> {S_LINEAR, S_PARABOLIC, S_PARABOLIC_SEPARABLE, S_GAUSSIAN,
                         S_GAUSSIAN_SEPARABLE, S_INTEGER}"
    from ParseMethod_unknown [OF this] bl show ?thesis
      by (simp add: SubpixelLocation_def Let_def BooleanFromString_def)
  next
    assume a: "s_method \<in> {S_PARABOLIC, S_GAUSSIAN} \<and> Dimensionality input \<notin> {1, 2, 3}"
    then have d: "Dimensionality input \<notin> {2, 3}" by simp
    from a have "ParseMethod s_method (Dimensionality input) = Inr PARABOLIC
                 \<or> ParseMethod s_method (Dimensionality input) = Inr GAUSSIAN"
      by (intro ParseMethod_joint) auto
    then show ?thesis
      using bl joint_fit_illegal_dimensionality [OF d]
      by (auto simp: SubpixelLocation_def Let_def BooleanFromString_def
          SubpixelLocationInternal_def)
  qed
qed

theorem SubpixelLocation_unsupported_configuration_witness:
  "interior (img2d 0 0 1) [1, 1]
   \<and> ''bogus'' \<notin> {S_LINEAR, S_PARABOLIC, S_PARABOLIC_SEPARABLE, S_GAUSSIAN,
                   S_GAUSSIAN_SEPARABLE, S_INTEGER}
   \<and> (\<exists>e. SubpixelLocation Cramer (img2d 0 0 1) [1, 1] S_MAXIMUM ''bogus'' = Inl e)"
proof -
  have i: "interior (img2d 0 0 1) [1, 1]"
    by (simp add: interior_img2d)
  have m: "''bogus'' \<notin> {S_LINEAR, S_PARABOLIC, S_PARABOLIC_SEPARABLE, S_GAUSSIAN,
                         S_GAUSSIAN_SEPARABLE, S_INTEGER}"
    by (simp add: S_defs)
  from SubpixelLocation_unsupported_configuration
         [OF i disjI1 [OF m], of Cramer S_MAXIMUM] i m
  show ?thesis by blast
qed

subsection \<open>One-dimensional images\<close>

text \<open>
  C7. On a 1-dimensional image \<open>SubpixelLocation\<close> with the joint Parabolic method is
  \<open>SubpixelLocation\<close> with the ParabolicSeparable method, and with the joint Gaussian
  method it is \<open>SubpixelLocation\<close> with the GaussianSeparable method: the same result or
  the same error, for every candidate, polarity string and solver.
\<close>

theorem SubpixelLocation_1D_joint_is_separable:
  assumes "Dimensionality input = 1"
  shows "SubpixelLocation Solve input position polarity S_PARABOLIC
           = SubpixelLocation Solve input position polarity S_PARABOLIC_SEPARABLE
       \<and> SubpixelLocation Solve input position polarity S_GAUSSIAN
           = SubpixelLocation Solve input position polarity S_GAUSSIAN_SEPARABLE"
proof -
  have p: "ParseMethod S_PARABOLIC (Dimensionality input)
             = ParseMethod S_PARABOLIC_SEPARABLE (Dimensionality input)"
    by (simp add: assms ParseMethod_def S_defs)
  have g: "ParseMethod S_GAUSSIAN (Dimensionality input)
             = ParseMethod S_GAUSSIAN_SEPARABLE (Dimensionality input)"
    by (simp add: assms ParseMethod_def S_defs)
  show ?thesis
    by (simp only: SubpixelLocation_def Let_def p g)
qed

lemma SubpixelLocation_line_3:
  "SubpixelLocation Solve (line_3 1 4 2) [1] S_MAXIMUM S_PARABOLIC_SEPARABLE
     = Inr \<lparr>coordinates = [Finite (11 / 10)], value = Finite (161 / 40)\<rparr>"
  by (simp add: SubpixelLocation_def line_3_def IsScalar_def Dimensionality_def upt_1
       uint_minus_1_def BooleanFromString_def ParseMethod_def S_defs SubpixelLocationInternal_def
       separable_body_def shift_def Let_def std_max_def std_min_def)

theorem SubpixelLocation_1D_joint_is_separable_witness:
  "Dimensionality (line_3 1 4 2) = 1
   \<and> SubpixelLocation Cramer (line_3 1 4 2) [1] S_MAXIMUM S_PARABOLIC
       = Inr \<lparr>coordinates = [Finite (11 / 10)], value = Finite (161 / 40)\<rparr>
   \<and> SubpixelLocation Cramer (line_3 1 4 2) [1] S_MAXIMUM S_PARABOLIC_SEPARABLE
       = Inr \<lparr>coordinates = [Finite (11 / 10)], value = Finite (161 / 40)\<rparr>"
proof -
  have d: "Dimensionality (line_3 1 4 2) = 1"
    by (simp add: Dimensionality_def line_3_def)
  from SubpixelLocation_1D_joint_is_separable [OF d, of Cramer "[1]" S_MAXIMUM]
    SubpixelLocation_line_3 [of Cramer] d
  show ?thesis by simp
qed

subsection \<open>A rejected joint fit\<close>

text \<open>
  C3. The code at two interior candidates whose joint parabolic fit is rejected. On the
  constant image \<open>-1\<close> the determinant is zero; on the paraboloid of centre \<open>(1, 0)\<close> and
  height \<open>-3\<close> the offset \<open>x = 1\<close> is out of tolerance. In both runs \<open>val\<close> still holds
  its initial \<open>0\<close> when the clamp takes the maximum of the raw sample and \<open>val\<close>, so the
  value returned for the polarity maximum is \<open>0\<close>, not the raw sample (\<open>-1\<close> and \<open>-4\<close>).
\<close>

theorem SubpixelLocation_rejected_fit_returns_zero:
  "quadratic_fit_3x3 (stencil_3x3 (constant_3x3 (- 1)) [1, 1]) (Finite 0) (Finite 0) (Finite 0)
       = (False, Finite 0, Finite 0, Finite 0)
   \<and> sample (constant_3x3 (- 1)) [1, 1] = - 1
   \<and> SubpixelLocation Solve (constant_3x3 (- 1)) [1, 1] S_MAXIMUM S_PARABOLIC
       = Inr \<lparr>coordinates = [Finite 1, Finite 1], value = Finite 0\<rparr>
   \<and> quadratic_fit_3x3 (stencil_3x3 (img2d 1 0 (- 3)) [1, 1]) (Finite 0) (Finite 0) (Finite 0)
       = (False, Finite 1, Finite 0, Finite 0)
   \<and> sample (img2d 1 0 (- 3)) [1, 1] = - 4
   \<and> SubpixelLocation Solve (img2d 1 0 (- 3)) [1, 1] S_MAXIMUM S_PARABOLIC
       = Inr \<lparr>coordinates = [Finite 1, Finite 1], value = Finite 0\<rparr>"
proof -
  have c: "quadratic_fit_3x3 (stencil_3x3 (constant_3x3 (- 1)) [1, 1]) (Finite 0) (Finite 0) (Finite 0)
       = (False, Finite 0, Finite 0, Finite 0)"
    by (simp add: constant_3x3_def stencil_3x3_def quadratic_fit_3x3_def least_squares_def
        upt_6 upt_9 w_3x3_def Let_def)
  have p: "quadratic_fit_3x3 (stencil_3x3 (img2d 1 0 (- 3)) [1, 1]) (Finite 0) (Finite 0) (Finite 0)
       = (False, Finite 1, Finite 0, Finite 0)"
    by (simp add: stencil_3x3_img2d quadratic_fit_3x3_def least_squares_parabola_2D Let_def)
  have "SubpixelLocation Solve (constant_3x3 (- 1)) [1, 1] S_MAXIMUM S_PARABOLIC
       = Inr \<lparr>coordinates = [Finite 1, Finite 1], value = Finite 0\<rparr>"
    using c
    by (simp add: SubpixelLocation_def IsScalar_def Dimensionality_def upt_2
       uint_minus_1_def BooleanFromString_def ParseMethod_def S_defs SubpixelLocationInternal_def
       joint_fit_def joint_2D_def Let_def constant_3x3_def std_max_def)
  moreover have "SubpixelLocation Solve (img2d 1 0 (- 3)) [1, 1] S_MAXIMUM S_PARABOLIC
       = Inr \<lparr>coordinates = [Finite 1, Finite 1], value = Finite 0\<rparr>"
    using p
    by (simp add: SubpixelLocation_def IsScalar_def Dimensionality_def upt_2
       uint_minus_1_def BooleanFromString_def ParseMethod_def S_defs SubpixelLocationInternal_def
       joint_fit_def joint_2D_def Let_def img2d_def p2_def p1_def std_max_def)
  ultimately show ?thesis using c p
    by (simp add: sample_img2d) (simp add: constant_3x3_def)
qed

subsection \<open>\<^verbatim>\<open>MeanShift\<close>\<close>

text \<open>
  C8. \<open>MeanShift\<close> throws exactly when the vector field is not forged, or its number of
  tensor elements differs from its dimensionality, or its samples are not real, or the
  start has not one coordinate per dimension, or \<open>epsilon \<le> 0\<close>. It then throws the same
  error whatever the interpolation and however many rounds the loop is allowed, none
  included: before any iteration. Otherwise it throws nothing and its outcome is that of
  the loop, run from the start with the squared \<open>epsilon\<close>.
\<close>

theorem MeanShift_fails_exactly_when:
  "((\<exists>e. MeanShift fuel R img start epsilon = Some (Inl e))
      \<longleftrightarrow> (\<not> forged img \<or> tensor_elements img \<noteq> Dimensionality img \<or> \<not> data_type_real img
           \<or> length start \<noteq> Dimensionality img \<or> epsilon \<le> 0))
   \<and> ((\<not> forged img \<or> tensor_elements img \<noteq> Dimensionality img \<or> \<not> data_type_real img
           \<or> length start \<noteq> Dimensionality img \<or> epsilon \<le> 0)
        \<longrightarrow> (\<exists>e. \<forall>fuel' R'. MeanShift fuel' R' img start epsilon = Some (Inl e)))
   \<and> (\<not> (\<not> forged img \<or> tensor_elements img \<noteq> Dimensionality img \<or> \<not> data_type_real img
           \<or> length start \<noteq> Dimensionality img \<or> epsilon \<le> 0)
        \<longrightarrow> MeanShift fuel R img start epsilon
              = map_option Inr (MeanShift_loop fuel (R img) (epsilon * epsilon) start))"
  by (cases "MeanShift_loop fuel (R img) (epsilon * epsilon) start")
     (auto simp: MeanShift_def Let_def)

theorem MeanShift_fails_exactly_when_witness:
  "(\<exists>e. MeanShift 0 zero_resample field_4x4 [1 / 2] 1 = Some (Inl e))
   \<and> MeanShift 0 zero_resample field_4x4 [1 / 2] 1 = Some (Inl ARRAY_PARAMETER_WRONG_LENGTH)
   \<and> \<not> (\<exists>e. MeanShift 3 zero_resample field_4x4 [1 / 2, 3 / 2] 1 = Some (Inl e))
   \<and> MeanShift 3 zero_resample field_4x4 [1 / 2, 3 / 2] 1
       = map_option Inr (MeanShift_loop 3 (zero_resample field_4x4) (1 * 1) [1 / 2, 3 / 2])"
proof -
  have f: "forged field_4x4" "tensor_elements field_4x4 = 2" "data_type_real field_4x4"
    "Dimensionality field_4x4 = 2"
    by (simp_all add: field_4x4_def Dimensionality_def)
  have "MeanShift 0 zero_resample field_4x4 [1 / 2] 1 = Some (Inl ARRAY_PARAMETER_WRONG_LENGTH)"
    by (simp add: MeanShift_def f)
  with MeanShift_fails_exactly_when [of 0 zero_resample field_4x4 "[1 / 2]" 1]
    MeanShift_fails_exactly_when [of 3 zero_resample field_4x4 "[1 / 2, 3 / 2]" 1]
  show ?thesis by (simp add: f)
qed

lemma map2_add_replicate_0:
  "length (pt :: real list) = n \<Longrightarrow> map2 (+) pt (replicate n 0) = pt"
  by (simp add: list_eq_iff_nth_eq)

lemma norm_square_replicate_0: "norm_square (replicate n 0) = 0"
  by (simp add: norm_square_def sum_list_replicate)

text \<open>
  C9. For a valid vector field whose interpolation is the zero vector at every point, a
  valid start and \<open>epsilon > 0\<close>, \<open>MeanShift\<close> returns the start unchanged after exactly
  one round of the loop, that is one interpolation: it returns as soon as one round is
  allowed, and with no round allowed it has no result.
\<close>

theorem MeanShift_zero_field:
  assumes "forged img" "tensor_elements img = Dimensionality img" "data_type_real img"
    and "length start = Dimensionality img" "0 < epsilon"
    and "\<forall>pt. R img pt = replicate (Dimensionality img) 0"
  shows "MeanShift (Suc fuel) R img start epsilon = Some (Inr start)
       \<and> MeanShift 0 R img start epsilon = None"
  using assms
  by (simp add: MeanShift_def Let_def map2_add_replicate_0 norm_square_replicate_0 not_less)

theorem MeanShift_zero_field_witness:
  "forged field_4x4 \<and> tensor_elements field_4x4 = Dimensionality field_4x4
   \<and> data_type_real field_4x4 \<and> length [1 / 2, 3 / 2 :: real] = Dimensionality field_4x4
   \<and> (0 :: real) < 1 / 10
   \<and> (\<forall>pt. zero_resample field_4x4 pt = replicate (Dimensionality field_4x4) 0)
   \<and> MeanShift 1 zero_resample field_4x4 [1 / 2, 3 / 2] (1 / 10) = Some (Inr [1 / 2, 3 / 2])
   \<and> MeanShift 0 zero_resample field_4x4 [1 / 2, 3 / 2] (1 / 10) = None"
proof -
  have f: "forged field_4x4" "tensor_elements field_4x4 = Dimensionality field_4x4"
    "data_type_real field_4x4" "length [1 / 2, 3 / 2 :: real] = Dimensionality field_4x4"
    "(0 :: real) < 1 / 10"
    "\<forall>pt. zero_resample field_4x4 pt = replicate (Dimensionality field_4x4) 0"
    by (simp_all add: field_4x4_def Dimensionality_def zero_resample_def)
  from MeanShift_zero_field [where img = field_4x4 and R = zero_resample and fuel = 0, OF f] f
  show ?thesis by simp
qed

subsection \<open>The value is clamped to the raw sample\<close>

lemma le_std_max:
  fixes x a b :: dfloat
  assumes "x \<le> a"
  shows "x \<le> std_max a b"
  using assms
  by (cases x; cases a; cases b) (auto simp: std_max_def less_eq_dfloat_def)

lemma std_min_le:
  fixes x a b :: dfloat
  assumes "a \<le> x"
  shows "std_min a b \<le> x"
  using assms
  by (cases x; cases a; cases b) (auto simp: std_min_def less_eq_dfloat_def)

lemma Finite_le_refl [simp]: "Finite x \<le> Finite x"
  by (simp add: less_eq_dfloat_def)

lemma foldl_invariant:
  assumes "P out" and "\<And>out ii. P out \<Longrightarrow> P (body out ii)"
  shows "P (foldl body out axes)"
  using assms(1) by (induction axes arbitrary: out) (simp_all add: assms(2))

lemma linear_body_value: "value (linear_body input position invert out ii) = value out"
  by (simp add: linear_body_def Let_def)

lemma integer_body_value: "value (integer_body position out ii) = value out"
  by (simp add: integer_body_def)

lemma separable_body_value:
  "value (separable_body input position meth invert out ii) =
     value out \<or>
   (\<exists>b. value (separable_body input position meth invert out ii)
          = (if invert then std_min (value out) b else std_max (value out) b))"
  by (auto simp: separable_body_def Let_def)

lemma joint_2D_value: "value (fst (joint_2D input position meth out val)) = value out"
  by (simp add: joint_2D_def Let_def split: prod.splits bool.splits)

lemma joint_3D_value: "value (fst (joint_3D Solve input position meth out val)) = value out"
  by (simp add: joint_3D_def Let_def split: prod.splits bool.splits)

lemma joint_fit_value:
  assumes "joint_fit Solve input position meth invert out = Inr r"
  shows "\<exists>b. value r = (if invert then std_min (value out) b else std_max (value out) b)"
proof -
  consider "Dimensionality input = 2" | "Dimensionality input = 3"
    using assms by (auto simp: joint_fit_def Let_def split: if_splits)
  then show ?thesis
  proof cases
    case 1
    obtain out' val' where j: "joint_2D input position meth out (Finite 0) = (out', val')"
      by (cases "joint_2D input position meth out (Finite 0)")
    with joint_2D_value [of input position meth out "Finite 0"] have "value out' = value out"
      by simp
    with assms 1 j show ?thesis
      by (auto simp: joint_fit_def Let_def)
  next
    case 2
    obtain out' val' where j: "joint_3D Solve input position meth out (Finite 0) = (out', val')"
      by (cases "joint_3D Solve input position meth out (Finite 0)")
    with joint_3D_value [of Solve input position meth out "Finite 0"] have "value out' = value out"
      by simp
    with assms 2 j show ?thesis
      by (auto simp: joint_fit_def Let_def)
  qed
qed

lemma SubpixelLocationInternal_value:
  assumes "SubpixelLocationInternal Solve input position meth invert = Inr r"
  shows "if invert then value r \<le> Finite (sample input position)
         else Finite (sample input position) \<le> value r"
proof -
  let ?out = "\<lparr>coordinates = replicate (Dimensionality input) (Finite 0),
               value = Finite (sample input position)\<rparr>"
  define P where "P = (\<lambda>out :: SubpixelLocationResult. if invert then value out \<le> Finite (sample input position)
                   else Finite (sample input position) \<le> value out)"
  have P0: "P ?out" by (simp add: P_def)
  have lin: "P (linear_body input position invert out ii)" if "P out" for out ii
    using that by (simp add: P_def linear_body_value)
  have int: "P (integer_body position out ii)" if "P out" for out ii
    using that by (simp add: P_def integer_body_value)
  have sep: "P (separable_body input position meth invert out ii)" if "P out" for out ii
    using that separable_body_value [of input position meth invert out ii]
    by (auto simp: P_def le_std_max std_min_le split: if_splits)
  have "P r"
  proof (cases meth)
    case LINEAR
    with assms have "r = foldl (linear_body input position invert) ?out [0..<Dimensionality input]"
      by (simp add: SubpixelLocationInternal_def Let_def)
    then show ?thesis using foldl_invariant [of P, OF P0 lin] by simp
  next
    case PARABOLIC_SEPARABLE
    with assms have "r = foldl (separable_body input position meth invert) ?out
                       [0..<Dimensionality input]"
      by (simp add: SubpixelLocationInternal_def Let_def)
    then show ?thesis using foldl_invariant [of P, OF P0 sep] by simp
  next
    case GAUSSIAN_SEPARABLE
    with assms have "r = foldl (separable_body input position meth invert) ?out
                       [0..<Dimensionality input]"
      by (simp add: SubpixelLocationInternal_def Let_def)
    then show ?thesis using foldl_invariant [of P, OF P0 sep] by simp
  next
    case PARABOLIC
    with assms have "joint_fit Solve input position meth invert ?out = Inr r"
      by (simp add: SubpixelLocationInternal_def Let_def)
    from joint_fit_value [OF this] show ?thesis
      by (auto simp: P_def le_std_max std_min_le split: if_splits)
  next
    case GAUSSIAN
    with assms have "joint_fit Solve input position meth invert ?out = Inr r"
      by (simp add: SubpixelLocationInternal_def Let_def)
    from joint_fit_value [OF this] show ?thesis
      by (auto simp: P_def le_std_max std_min_le split: if_splits)
  next
    case INTEGER
    with assms have "r = foldl (integer_body position) ?out [0..<Dimensionality input]"
      by (simp add: SubpixelLocationInternal_def Let_def)
    then show ?thesis using foldl_invariant [of P, OF P0 int] by simp
  qed
  then show ?thesis by (simp add: P_def)
qed

lemma SubpixelLocationInternal_returns:
  assumes "meth \<in> {PARABOLIC, GAUSSIAN} \<longrightarrow> Dimensionality input \<in> {2, 3}"
  shows "\<exists>r. SubpixelLocationInternal Solve input position meth invert = Inr r"
  using assms
  by (cases meth) (auto simp: SubpixelLocationInternal_def Let_def joint_fit_def split: prod.splits)

lemma SubpixelLocation_interior:
  assumes "interior input position"
    and "SubpixelLocation Solve input position polarity s_method = Inr r"
  shows "\<exists>invert meth. BooleanFromString polarity S_MINIMUM S_MAXIMUM = Inr invert
           \<and> ParseMethod s_method (Dimensionality input) = Inr meth
           \<and> SubpixelLocationInternal Solve input position meth invert = Inr r"
  using assms(2) border_loop_of_interior [OF assms(1)]
  by (auto simp: SubpixelLocation_def Let_def split: if_splits sum.splits)

lemma ParseMethod_known:
  assumes "s_method \<in> {S_LINEAR, S_PARABOLIC, S_PARABOLIC_SEPARABLE, S_GAUSSIAN,
                        S_GAUSSIAN_SEPARABLE, S_INTEGER}"
  shows "\<exists>meth. ParseMethod s_method nDims = Inr meth
           \<and> (meth \<in> {PARABOLIC, GAUSSIAN} \<longrightarrow> s_method \<in> {S_PARABOLIC, S_GAUSSIAN} \<and> nDims \<noteq> 1)"
  using assms by (auto simp: ParseMethod_def Let_def S_defs)

lemma SubpixelLocation_returns:
  assumes "interior input position"
    and "forged input" "IsScalar input" "data_type_real input" "1 \<le> Dimensionality input"
    and "polarity \<in> {S_MINIMUM, S_MAXIMUM}"
    and "s_method \<in> {S_LINEAR, S_PARABOLIC, S_PARABOLIC_SEPARABLE, S_GAUSSIAN,
                       S_GAUSSIAN_SEPARABLE, S_INTEGER}"
    and "s_method \<in> {S_PARABOLIC, S_GAUSSIAN} \<longrightarrow> Dimensionality input \<in> {1, 2, 3}"
  shows "\<exists>r. SubpixelLocation Solve input position polarity s_method = Inr r"
proof -
  from ParseMethod_known [OF assms(7), of "Dimensionality input"] obtain meth where
    p: "ParseMethod s_method (Dimensionality input) = Inr meth"
    and j: "meth \<in> {PARABOLIC, GAUSSIAN}
              \<longrightarrow> s_method \<in> {S_PARABOLIC, S_GAUSSIAN} \<and> Dimensionality input \<noteq> 1"
    by blast
  from j assms(8) have "meth \<in> {PARABOLIC, GAUSSIAN} \<longrightarrow> Dimensionality input \<in> {2, 3}"
    by auto
  from SubpixelLocationInternal_returns [OF this] have
    i: "\<exists>r. SubpixelLocationInternal Solve input position meth invert = Inr r" for invert
    by blast
  from assms(6) have "\<exists>invert. BooleanFromString polarity S_MINIMUM S_MAXIMUM = Inr invert"
    by (auto simp: BooleanFromString_def)
  then obtain invert where
    b: "BooleanFromString polarity S_MINIMUM S_MAXIMUM = Inr invert"
    by blast
  from i [of invert] p b assms(2-5) interior_length [OF assms(1)]
    border_loop_of_interior [OF assms(1)]
  show ?thesis
    by (auto simp: SubpixelLocation_def Let_def Dimensionality_def)
qed

text \<open>
  C2. For an interior candidate, whatever the meth and the solver, the value of a result
  of \<open>SubpixelLocation\<close> is never less extreme than the raw sample at the candidate:
  at least the sample for the polarity maximum, at most the sample for the polarity
  minimum (in the order of the doubles, so the value is never NaN). And the result is
  there: on a forged, scalar, real-valued image of at least one dimension, for either
  polarity and each of the six methods (the joint ones on images of one, two or three
  dimensions) \<open>SubpixelLocation\<close> returns a result, also when a fit has computed with
  infinities or NaN.
\<close>

theorem SubpixelLocation_value_not_less_extreme:
  assumes "interior input position"
  shows "(SubpixelLocation Solve input position polarity s_method = Inr r \<longrightarrow>
            (polarity = S_MAXIMUM \<longrightarrow> Finite (sample input position) \<le> value r)
          \<and> (polarity = S_MINIMUM \<longrightarrow> value r \<le> Finite (sample input position)))
       \<and> (forged input \<and> IsScalar input \<and> data_type_real input \<and> 1 \<le> Dimensionality input
          \<and> polarity \<in> {S_MINIMUM, S_MAXIMUM}
          \<and> s_method \<in> {S_LINEAR, S_PARABOLIC, S_PARABOLIC_SEPARABLE, S_GAUSSIAN,
                          S_GAUSSIAN_SEPARABLE, S_INTEGER}
          \<and> (s_method \<in> {S_PARABOLIC, S_GAUSSIAN} \<longrightarrow> Dimensionality input \<in> {1, 2, 3})
          \<longrightarrow> (\<exists>r'. SubpixelLocation Solve input position polarity s_method = Inr r'))"
proof (intro conjI impI)
  assume s: "SubpixelLocation Solve input position polarity s_method = Inr r"
  from SubpixelLocation_interior [OF assms s] obtain invert meth where
    b: "BooleanFromString polarity S_MINIMUM S_MAXIMUM = Inr invert"
    and i: "SubpixelLocationInternal Solve input position meth invert = Inr r"
    by blast
  from b have p: "polarity = S_MAXIMUM \<Longrightarrow> \<not> invert" "polarity = S_MINIMUM \<Longrightarrow> invert"
    by (auto simp: BooleanFromString_def S_defs split: if_splits)
  {
    assume "polarity = S_MAXIMUM"
    with SubpixelLocationInternal_value [OF i] p
    show "Finite (sample input position) \<le> value r" by auto
  }
  {
    assume "polarity = S_MINIMUM"
    with SubpixelLocationInternal_value [OF i] p
    show "value r \<le> Finite (sample input position)" by auto
  }
next
  assume "forged input \<and> IsScalar input \<and> data_type_real input \<and> 1 \<le> Dimensionality input
          \<and> polarity \<in> {S_MINIMUM, S_MAXIMUM}
          \<and> s_method \<in> {S_LINEAR, S_PARABOLIC, S_PARABOLIC_SEPARABLE, S_GAUSSIAN,
                          S_GAUSSIAN_SEPARABLE, S_INTEGER}
          \<and> (s_method \<in> {S_PARABOLIC, S_GAUSSIAN} \<longrightarrow> Dimensionality input \<in> {1, 2, 3})"
  with SubpixelLocation_returns [OF assms, of polarity s_method Solve]
  show "\<exists>r'. SubpixelLocation Solve input position polarity s_method = Inr r'"
    by blast
qed

lemma SubpixelLocation_line_3_zero_centre:
  "SubpixelLocation Solve (line_3 1 0 1) [1] S_MAXIMUM S_GAUSSIAN_SEPARABLE
     = Inr \<lparr>coordinates = [Finite 1], value = Finite 0\<rparr>"
  by (simp add: SubpixelLocation_def line_3_def IsScalar_def Dimensionality_def upt_1
       uint_minus_1_def BooleanFromString_def ParseMethod_def S_defs SubpixelLocationInternal_def
       separable_body_def shift_def Let_def log_transform_def std_max_def minus_dfloat_def)

theorem SubpixelLocation_value_not_less_extreme_witness:
  "interior (img2d (1/4) (- (1/2)) 4) [1, 1]
   \<and> SubpixelLocation Cramer (img2d (1/4) (- (1/2)) 4) [1, 1] S_MAXIMUM S_PARABOLIC
       = Inr \<lparr>coordinates = [Finite (5/4), Finite (1/2)], value = Finite 4\<rparr>
   \<and> sample (img2d (1/4) (- (1/2)) 4) [1, 1] = 59 / 16
   \<and> Finite (sample (img2d (1/4) (- (1/2)) 4) [1, 1])
       \<le> value \<lparr>coordinates = [Finite (5/4), Finite (1/2)], value = Finite 4\<rparr>
   \<and> interior (line_3 1 0 1) [1]
   \<and> SubpixelLocation Cramer (line_3 1 0 1) [1] S_MAXIMUM S_GAUSSIAN_SEPARABLE
       = Inr \<lparr>coordinates = [Finite 1], value = Finite 0\<rparr>
   \<and> Finite (sample (line_3 1 0 1) [1]) \<le> value \<lparr>coordinates = [Finite 1], value = Finite 0\<rparr>"
proof -
  have r: "SubpixelLocation Cramer (img2d (1/4) (- (1/2)) 4) [1, 1] S_MAXIMUM S_PARABOLIC
       = Inr \<lparr>coordinates = [Finite (5/4), Finite (1/2)], value = Finite 4\<rparr>"
    using SubpixelLocation_img2d [of "1/4" "- (1/2)" Cramer 4] by simp
  have s: "sample (img2d (1/4) (- (1/2)) 4) [1, 1] = 59 / 16"
    by (simp add: sample_img2d)
  have i: "interior (img2d (1/4) (- (1/2)) 4) [1, 1]"
    by (simp add: interior_img2d)
  have i': "interior (line_3 1 0 1) [1]"
    by (simp add: interior_def line_3_def)
  note r' = SubpixelLocation_line_3_zero_centre [of Cramer]
  have a: "Finite (sample (img2d (1/4) (- (1/2)) 4) [1, 1])
       \<le> value \<lparr>coordinates = [Finite (5/4), Finite (1/2)], value = Finite 4\<rparr>"
    using SubpixelLocation_value_not_less_extreme [OF i, THEN conjunct1, THEN mp, OF r]
    by blast
  have b: "Finite (sample (line_3 1 0 1) [1])
       \<le> value \<lparr>coordinates = [Finite 1], value = Finite 0\<rparr>"
    using SubpixelLocation_value_not_less_extreme [OF i', THEN conjunct1, THEN mp, OF r']
    by blast
  show ?thesis by (intro conjI i r s a i' r' b)
qed

subsection \<open>Bounds on the offsets\<close>

lemma std_min_Finite [simp]: "std_min (Finite a) (Finite b) = Finite (min a b)"
  by (auto simp: std_min_def)

lemma std_max_Finite [simp]: "std_max (Finite a) (Finite b) = Finite (max a b)"
  by (auto simp: std_max_def)

lemma centroid_bound:
  fixes u0 u1 u2 :: real
  assumes "0 \<le> u0" "0 \<le> u1" "0 \<le> u2" "u0 + u1 + u2 \<noteq> 0"
  shows "\<bar>(u2 - u0) / (u0 + u1 + u2)\<bar> \<le> 1"
proof -
  from assms have m: "0 < u0 + u1 + u2" by linarith
  from assms have "\<bar>u2 - u0\<bar> \<le> u0 + u1 + u2" by linarith
  with m show ?thesis by (simp add: abs_divide)
qed

lemma linear_body_coordinates:
  assumes "ii < length (coordinates out)"
  shows "length (coordinates (linear_body input position invert out ii)) = length (coordinates out)
       \<and> offset_within 1 (position ! ii) (coordinates (linear_body input position invert out ii) ! ii)
       \<and> (\<forall>k. k \<noteq> ii \<longrightarrow> coordinates (linear_body input position invert out ii) ! k
                              = coordinates out ! k)"
proof -
  define s0 where "s0 = (if invert then - sample input (shift position ii (- 1))
                          else sample input (shift position ii (- 1)))"
  define s1 where "s1 = (if invert then - sample input position else sample input position)"
  define s2 where "s2 = (if invert then - sample input (shift position ii 1)
                          else sample input (shift position ii 1))"
  define b where "b = min (min s0 s1) s2"
  have nn: "0 \<le> s0 - b" "0 \<le> s1 - b" "0 \<le> s2 - b"
    by (simp_all add: b_def)
  have out': "linear_body input position invert out ii = (if s0 - b + (s1 - b) + (s2 - b) \<noteq> 0
        then out\<lparr>coordinates := (coordinates out)
               [ii := Finite (real (position ! ii) + (s2 - b - (s0 - b)) / (s0 - b + (s1 - b) + (s2 - b)))]\<rparr>
        else out\<lparr>coordinates := (coordinates out)[ii := Finite (real (position ! ii))]\<rparr>)"
    using assms
    by (simp add: linear_body_def Let_def s0_def s1_def s2_def b_def)
  show ?thesis
  proof (cases "s0 - b + (s1 - b) + (s2 - b) \<noteq> 0")
    case True
    from centroid_bound [OF nn True] True assms show ?thesis
      unfolding out' by (simp add: offset_within_def)
  next
    case False
    with assms show ?thesis
      unfolding out' by (simp add: offset_within_def)
  qed
qed

lemma foldl_linear_coordinates:
  assumes "\<forall>ii\<in>set axes. ii < length (coordinates out)"
  shows "length (coordinates (foldl (linear_body input position invert) out axes))
           = length (coordinates out)
       \<and> (\<forall>k. if k \<in> set axes
               then offset_within 1 (position ! k)
                      (coordinates (foldl (linear_body input position invert) out axes) ! k)
               else coordinates (foldl (linear_body input position invert) out axes) ! k
                      = coordinates out ! k)"
  using assms
proof (induction axes arbitrary: out)
  case Nil
  then show ?case by simp
next
  case (Cons ii axes)
  let ?out' = "linear_body input position invert out ii"
  let ?r = "foldl (linear_body input position invert) ?out' axes"
  from Cons.prems have ii: "ii < length (coordinates out)" by simp
  note c = linear_body_coordinates [OF ii, of input position invert]
  from c Cons.prems have "\<forall>k\<in>set axes. k < length (coordinates ?out')" by simp
  from Cons.IH [OF this] have IH: "length (coordinates ?r) = length (coordinates ?out')"
    "\<And>k. k \<in> set axes \<Longrightarrow> offset_within 1 (position ! k) (coordinates ?r ! k)"
    "\<And>k. k \<notin> set axes \<Longrightarrow> coordinates ?r ! k = coordinates ?out' ! k"
    by (simp_all split: if_splits)
  show ?case
  proof (intro conjI allI)
    show "length (coordinates (foldl (linear_body input position invert) out (ii # axes)))
            = length (coordinates out)"
      using IH(1) c by simp
  next
    fix k
    show "if k \<in> set (ii # axes)
          then offset_within 1 (position ! k)
                 (coordinates (foldl (linear_body input position invert) out (ii # axes)) ! k)
          else coordinates (foldl (linear_body input position invert) out (ii # axes)) ! k
                 = coordinates out ! k"
    proof (cases "k \<in> set axes")
      case True
      with IH(2) show ?thesis by simp
    next
      case False
      with IH(3) c show ?thesis by (cases "k = ii") simp_all
    qed
  qed
qed

lemma SubpixelLocationInternal_LINEAR_offsets:
  assumes "SubpixelLocationInternal Solve input position LINEAR invert = Inr r"
  shows "\<forall>ii<Dimensionality input. offset_within 1 (position ! ii) (coordinates r ! ii)"
proof -
  let ?out = "\<lparr>coordinates = replicate (Dimensionality input) (Finite 0),
               value = Finite (sample input position)\<rparr>"
  from assms have "r = foldl (linear_body input position invert) ?out [0..<Dimensionality input]"
    by (simp add: SubpixelLocationInternal_def Let_def)
  with foldl_linear_coordinates [of "[0..<Dimensionality input]" ?out input position invert]
  show ?thesis
    by (auto split: if_splits)
qed


lemma tolerance_cases:
  assumes "\<not> (x < Finite (- 0.75) \<or> x > Finite 0.75)"
  shows "x = NaN \<or> (\<exists>d. x = Finite d \<and> \<bar>d\<bar> \<le> 0.75)"
  using assms by (cases x) auto

lemma quadratic_fit_3x3_offsets:
  assumes "quadratic_fit_3x3 t x y val = (True, x', y', v)"
  shows "(x' = NaN \<or> (\<exists>d. x' = Finite d \<and> \<bar>d\<bar> \<le> 0.75))
       \<and> (y' = NaN \<or> (\<exists>d. y' = Finite d \<and> \<bar>d\<bar> \<le> 0.75))"
proof -
  define a where "a = least_squares w_3x3 t 6 9 6"
  define denom where "denom = a ! 5 * a ! 5 - Finite 4 * a ! 3 * a ! 4"
  define x0 where "x0 = (Finite 2 * a ! 4 * a ! 1 - a ! 5 * a ! 2) / denom"
  define y0 where "y0 = (Finite 2 * a ! 3 * a ! 2 - a ! 5 * a ! 1) / denom"
  from assms have "x' = x0 \<and> y' = y0
      \<and> \<not> (x0 < Finite (- 0.75) \<or> x0 > Finite 0.75) \<and> \<not> (y0 < Finite (- 0.75) \<or> y0 > Finite 0.75)"
    unfolding quadratic_fit_3x3_def a_def [symmetric] Let_def denom_def [symmetric]
      x0_def [symmetric] y0_def [symmetric]
    by (auto split: if_splits)
  with tolerance_cases [of x0] tolerance_cases [of y0] show ?thesis by blast
qed

lemma quadratic_fit_3x3_finite:
  assumes "length ts = 9" "quadratic_fit_3x3 (map Finite ts) x y val = (True, x', y', v)"
  shows "x' \<noteq> NaN \<and> y' \<noteq> NaN"
proof -
  define f where "f = (\<lambda>ii. foldl (\<lambda>acc jj. acc + w_3x3 ! (ii * 9 + jj) * ts ! jj) 0 [0..<9] / 6)"
  have "least_squares w_3x3 (map Finite ts) 6 9 6 = map (\<lambda>ii. Finite (f ii)) [0..<6]"
    using least_squares_Finite [OF assms(1), of 6 w_3x3 6] by (simp add: f_def)
  then have a: "least_squares w_3x3 (map Finite ts) 6 9 6
                  = [Finite (f 0), Finite (f 1), Finite (f 2), Finite (f 3), Finite (f 4), Finite (f 5)]"
    by (simp add: upt_6)
  from assms(2) show ?thesis
    unfolding quadratic_fit_3x3_def a Let_def
    by (auto split: if_splits)
qed


lemma quadratic_fit_3x3x3_offsets:
  assumes "quadratic_fit_3x3x3 Solve t x y z val = (True, x', y', z', v)"
  shows "(x' = NaN \<or> (\<exists>d. x' = Finite d \<and> \<bar>d\<bar> \<le> 0.75))
       \<and> (y' = NaN \<or> (\<exists>d. y' = Finite d \<and> \<bar>d\<bar> \<le> 0.75))
       \<and> (z' = NaN \<or> (\<exists>d. z' = Finite d \<and> \<bar>d\<bar> \<le> 0.75))"
proof -
  define a where "a = least_squares w_3x3x3 t 10 27 18"
  define c where "c = Solve [Finite 2 * a ! 4, a ! 9, a ! 8, a ! 9, Finite 2 * a ! 5, a ! 7, a ! 8,
                             a ! 7, Finite 2 * a ! 6] [- a ! 1, - a ! 2, - a ! 3]"
  from assms have "x' = c ! 0 \<and> y' = c ! 1 \<and> z' = c ! 2
      \<and> \<not> (c ! 0 < Finite (- 0.75) \<or> c ! 0 > Finite 0.75)
      \<and> \<not> (c ! 1 < Finite (- 0.75) \<or> c ! 1 > Finite 0.75)
      \<and> \<not> (c ! 2 < Finite (- 0.75) \<or> c ! 2 > Finite 0.75)"
    unfolding quadratic_fit_3x3x3_def a_def [symmetric] Let_def c_def [symmetric]
    by (auto split: if_splits)
  with tolerance_cases [of "c ! 0"] tolerance_cases [of "c ! 1"] tolerance_cases [of "c ! 2"]
  show ?thesis by blast
qed

lemma upt_10: "[0..<10] = [0, 1, 2, 3, 4, 5, 6, 7, 8, 9]" by code_simp

lemma quadratic_fit_3x3x3_finite:
  assumes "length ts = 27"
    and "\<forall>bs cs. length bs = 9 \<and> length cs = 3
           \<longrightarrow> (\<forall>ii<3. Solve (map Finite bs) (map Finite cs) ! ii \<noteq> NaN)"
    and "quadratic_fit_3x3x3 Solve (map Finite ts) x y z val = (ok, x', y', z', v)"
  shows "x' \<noteq> NaN \<and> y' \<noteq> NaN \<and> z' \<noteq> NaN"
proof -
  define f where
    "f = (\<lambda>ii. foldl (\<lambda>acc jj. acc + w_3x3x3 ! (ii * 27 + jj) * ts ! jj) 0 [0..<27] / 18)"
  have "least_squares w_3x3x3 (map Finite ts) 10 27 18 = map (\<lambda>ii. Finite (f ii)) [0..<10]"
    using least_squares_Finite [OF assms(1), of 18 w_3x3x3 10] by (simp add: f_def)
  then have a: "least_squares w_3x3x3 (map Finite ts) 10 27 18
                  = [Finite (f 0), Finite (f 1), Finite (f 2), Finite (f 3), Finite (f 4),
                     Finite (f 5), Finite (f 6), Finite (f 7), Finite (f 8), Finite (f 9)]"
    by (simp add: upt_10)
  define c where "c = Solve (map Finite [2 * f 4, f 9, f 8, f 9, 2 * f 5, f 7, f 8, f 7, 2 * f 6])
                            (map Finite [- f 1, - f 2, - f 3])"
  have "\<forall>ii<3. c ! ii \<noteq> NaN"
    unfolding c_def by (rule assms(2) [THEN spec, THEN spec, THEN mp]) simp
  then have n: "c ! 0 \<noteq> NaN" "c ! 1 \<noteq> NaN" "c ! 2 \<noteq> NaN"
    by simp_all
  from assms(3) have "x' = c ! 0 \<and> y' = c ! 1 \<and> z' = c ! 2"
    unfolding quadratic_fit_3x3x3_def a Let_def c_def
    by (auto split: if_splits)
  with n show ?thesis by simp
qed

lemma stencil_3x3_Finite: "\<exists>ts. length ts = 9 \<and> stencil_3x3 input position = map Finite ts"
  by (rule exI [of _ "concat (map (\<lambda>jj. map (\<lambda>ii. sample input (shift (shift position 0 ii) 1 jj))
                          [- 1, 0, 1]) [- 1, 0, 1])"])
     (simp add: stencil_3x3_def)

lemma stencil_3x3x3_Finite: "\<exists>ts. length ts = 27 \<and> stencil_3x3x3 input position = map Finite ts"
  by (rule exI [of _ "concat (map (\<lambda>kk. concat (map (\<lambda>jj.
        map (\<lambda>ii. sample input (shift (shift (shift position 0 ii) 1 jj) 2 kk))
            [- 1, 0, 1]) [- 1, 0, 1])) [- 1, 0, 1])"])
     (simp add: stencil_3x3x3_def)

lemma stencil_3x3_centre: "stencil_3x3 input position ! 4 = Finite (sample input position)"
  by (simp add: stencil_3x3_def shift_def)

lemma stencil_3x3x3_centre: "stencil_3x3x3 input position ! 13 = Finite (sample input position)"
  by (simp add: stencil_3x3x3_def shift_def)

lemma log_transform_same_sign:
  assumes "same_sign (map Finite ts) (Finite c)"
  shows "log_transform (map Finite ts) (Finite c < Finite 0) = map Finite (map (\<lambda>s. ln \<bar>s\<bar>) ts)"
proof (cases "c < 0")
  case True
  with assms have "\<forall>s\<in>set ts. s < 0"
    by (auto simp: same_sign_def list_all_iff zero_less_mult_iff)
  with True show ?thesis by (auto simp: log_transform_def abs_if)
next
  case False
  with assms have "\<forall>s\<in>set ts. 0 < s"
    by (auto simp: same_sign_def list_all_iff zero_less_mult_iff)
  with False show ?thesis by (auto simp: log_transform_def abs_if)
qed

lemma offset_within_add:
  assumes "x = NaN \<or> (\<exists>d. x = Finite d \<and> \<bar>d\<bar> \<le> 0.75)"
  shows "Finite (real p) + x = NaN \<or> offset_within 0.75 p (Finite (real p) + x)"
  using assms by (auto simp: offset_within_def)

lemma offset_within_0: "offset_within 0.75 p (Finite (real p))"
  by (simp add: offset_within_def)

lemma Finite_add_not_NaN: "x \<noteq> NaN \<Longrightarrow> Finite p + x \<noteq> NaN"
  by (cases x) simp_all

lemma joint_2D_coordinates:
  assumes "length (coordinates out) = 2" "ii < 2"
  shows "(coordinates (fst (joint_2D input position meth out val)) ! ii = NaN
          \<or> offset_within 0.75 (position ! ii)
               (coordinates (fst (joint_2D input position meth out val)) ! ii))
       \<and> ((meth = GAUSSIAN
             \<longrightarrow> same_sign (stencil_3x3 input position) (Finite (sample input position)))
          \<longrightarrow> coordinates (fst (joint_2D input position meth out val)) ! ii \<noteq> NaN)"
proof -
  define T where "T = (if meth = GAUSSIAN
      then log_transform (stencil_3x3 input position)
             (meth = GAUSSIAN \<and> stencil_3x3 input position ! 4 < Finite 0)
      else stencil_3x3 input position)"
  obtain ok x y v where q: "quadratic_fit_3x3 T (Finite 0) (Finite 0) val = (ok, x, y, v)"
    by (cases "quadratic_fit_3x3 T (Finite 0) (Finite 0) val") blast
  from assms(1) obtain c0 c1 where o: "coordinates out = [c0, c1]"
    by (cases "coordinates out"; cases "tl (coordinates out)") auto
  have c: "coordinates (fst (joint_2D input position meth out val))
             = (if ok then [Finite (real (position ! 0)) + x, Finite (real (position ! 1)) + y]
                else [Finite (real (position ! 0)), Finite (real (position ! 1))])"
    unfolding joint_2D_def Let_def T_def [symmetric] q
    by (cases ok) (simp_all add: o)
  have fin: "\<exists>ts. length ts = 9 \<and> T = map Finite ts"
    if "meth = GAUSSIAN \<longrightarrow> same_sign (stencil_3x3 input position) (Finite (sample input position))"
  proof -
    from stencil_3x3_Finite obtain ts where
      ts: "length ts = 9" "stencil_3x3 input position = map Finite ts"
      by blast
    show ?thesis
    proof (cases "meth = GAUSSIAN")
      case True
      with that ts have "same_sign (map Finite ts) (Finite (sample input position))" by simp
      from log_transform_same_sign [OF this] True ts stencil_3x3_centre [of input position]
      have "T = map Finite (map (\<lambda>s. ln \<bar>s\<bar>) ts)"
        by (simp add: T_def)
      with ts(1) show ?thesis by (intro exI [of _ "map (\<lambda>s. ln \<bar>s\<bar>) ts"]) simp
    next
      case False
      with ts show ?thesis by (auto simp: T_def)
    qed
  qed
  from assms(2) have ii: "ii = 0 \<or> ii = 1" by auto
  show ?thesis
  proof (cases ok)
    case True
    with q have q': "quadratic_fit_3x3 T (Finite 0) (Finite 0) val = (True, x, y, v)"
      by simp
    note b = quadratic_fit_3x3_offsets [OF q']
    from b ii offset_within_add [of x "position ! 0"] offset_within_add [of y "position ! 1"]
    have 1: "coordinates (fst (joint_2D input position meth out val)) ! ii = NaN
          \<or> offset_within 0.75 (position ! ii)
               (coordinates (fst (joint_2D input position meth out val)) ! ii)"
      unfolding c by (auto simp: True)
    have 2: "coordinates (fst (joint_2D input position meth out val)) ! ii \<noteq> NaN"
      if "meth = GAUSSIAN \<longrightarrow> same_sign (stencil_3x3 input position) (Finite (sample input position))"
    proof -
      from fin [OF that] obtain ts where ts: "length ts = 9" "T = map Finite ts" by blast
      from quadratic_fit_3x3_finite [OF ts(1) q' [unfolded ts(2)]]
        Finite_add_not_NaN ii
      show ?thesis unfolding c by (auto simp: True)
    qed
    from 1 2 show ?thesis by blast
  next
    case False
    with ii offset_within_0 show ?thesis unfolding c by auto
  qed
qed


lemma joint_3D_coordinates:
  assumes "length (coordinates out) = 3" "ii < 3"
  shows "(coordinates (fst (joint_3D Solve input position meth out val)) ! ii = NaN
          \<or> offset_within 0.75 (position ! ii)
               (coordinates (fst (joint_3D Solve input position meth out val)) ! ii))
       \<and> ((meth = GAUSSIAN
             \<longrightarrow> same_sign (stencil_3x3x3 input position) (Finite (sample input position)))
          \<and> (\<forall>bs cs. length bs = 9 \<and> length cs = 3
                \<longrightarrow> (\<forall>ii<3. Solve (map Finite bs) (map Finite cs) ! ii \<noteq> NaN))
          \<longrightarrow> coordinates (fst (joint_3D Solve input position meth out val)) ! ii \<noteq> NaN)"
proof -
  define T where "T = (if meth = GAUSSIAN
      then log_transform (stencil_3x3x3 input position)
             (meth = GAUSSIAN \<and> stencil_3x3x3 input position ! 13 < Finite 0)
      else stencil_3x3x3 input position)"
  obtain ok x y z v where
    q: "quadratic_fit_3x3x3 Solve T (Finite 0) (Finite 0) (Finite 0) val = (ok, x, y, z, v)"
    by (cases "quadratic_fit_3x3x3 Solve T (Finite 0) (Finite 0) (Finite 0) val") blast
  from assms(1) obtain c0 c1 c2 where o: "coordinates out = [c0, c1, c2]"
    by (cases "coordinates out"; cases "tl (coordinates out)"; cases "tl (tl (coordinates out))")
       auto
  have c: "coordinates (fst (joint_3D Solve input position meth out val))
             = (if ok then [Finite (real (position ! 0)) + x, Finite (real (position ! 1)) + y,
                            Finite (real (position ! 2)) + z]
                else [Finite (real (position ! 0)), Finite (real (position ! 1)),
                      Finite (real (position ! 2))])"
    unfolding joint_3D_def Let_def T_def [symmetric] q
    by (cases ok) (simp_all add: o)
  have fin: "\<exists>ts. length ts = 27 \<and> T = map Finite ts"
    if "meth = GAUSSIAN \<longrightarrow> same_sign (stencil_3x3x3 input position) (Finite (sample input position))"
  proof -
    from stencil_3x3x3_Finite obtain ts where
      ts: "length ts = 27" "stencil_3x3x3 input position = map Finite ts"
      by blast
    show ?thesis
    proof (cases "meth = GAUSSIAN")
      case True
      with that ts have "same_sign (map Finite ts) (Finite (sample input position))" by simp
      from log_transform_same_sign [OF this] True ts stencil_3x3x3_centre [of input position]
      have "T = map Finite (map (\<lambda>s. ln \<bar>s\<bar>) ts)"
        by (simp add: T_def)
      with ts(1) show ?thesis by (intro exI [of _ "map (\<lambda>s. ln \<bar>s\<bar>) ts"]) simp
    next
      case False
      with ts show ?thesis by (auto simp: T_def)
    qed
  qed
  from assms(2) have ii: "ii = 0 \<or> ii = 1 \<or> ii = 2" by auto
  show ?thesis
  proof (cases ok)
    case True
    with q have
      q': "quadratic_fit_3x3x3 Solve T (Finite 0) (Finite 0) (Finite 0) val = (True, x, y, z, v)"
      by simp
    note b = quadratic_fit_3x3x3_offsets [OF q']
    from b ii offset_within_add [of x "position ! 0"] offset_within_add [of y "position ! 1"]
      offset_within_add [of z "position ! 2"]
    have 1: "coordinates (fst (joint_3D Solve input position meth out val)) ! ii = NaN
          \<or> offset_within 0.75 (position ! ii)
               (coordinates (fst (joint_3D Solve input position meth out val)) ! ii)"
      unfolding c by (auto simp: True)
    have 2: "coordinates (fst (joint_3D Solve input position meth out val)) ! ii \<noteq> NaN"
      if g: "meth = GAUSSIAN
               \<longrightarrow> same_sign (stencil_3x3x3 input position) (Finite (sample input position))"
        and s: "\<forall>bs cs. length bs = 9 \<and> length cs = 3
                  \<longrightarrow> (\<forall>ii<3. Solve (map Finite bs) (map Finite cs) ! ii \<noteq> NaN)"
    proof -
      from fin [OF g] obtain ts where ts: "length ts = 27" "T = map Finite ts" by blast
      from quadratic_fit_3x3x3_finite [OF ts(1) s q' [unfolded ts(2)]]
        Finite_add_not_NaN ii
      show ?thesis unfolding c by (auto simp: True)
    qed
    from 1 2 show ?thesis by blast
  next
    case False
    with ii offset_within_0 show ?thesis unfolding c by auto
  qed
qed

lemma SubpixelLocationInternal_joint_offsets:
  assumes "meth = PARABOLIC \<or> meth = GAUSSIAN" "Dimensionality input \<in> {2, 3}"
  shows "\<exists>r. SubpixelLocationInternal Solve input position meth invert = Inr r
           \<and> (\<forall>ii<Dimensionality input.
                 (coordinates r ! ii = NaN \<or> offset_within 0.75 (position ! ii) (coordinates r ! ii))
               \<and> ((meth = GAUSSIAN
                     \<longrightarrow> same_sign (if Dimensionality input = 2 then stencil_3x3 input position
                                    else stencil_3x3x3 input position)
                           (Finite (sample input position)))
                  \<and> (Dimensionality input = 3
                       \<longrightarrow> (\<forall>bs cs. length bs = 9 \<and> length cs = 3
                              \<longrightarrow> (\<forall>ii<3. Solve (map Finite bs) (map Finite cs) ! ii \<noteq> NaN)))
                  \<longrightarrow> coordinates r ! ii \<noteq> NaN))"
proof -
  let ?out = "\<lparr>coordinates = replicate (Dimensionality input) (Finite 0),
               value = Finite (sample input position)\<rparr>"
  from assms(2) consider "Dimensionality input = 2" | "Dimensionality input = 3" by auto
  then show ?thesis
  proof cases
    case 1
    obtain out' val' where j: "joint_2D input position meth ?out (Finite 0) = (out', val')"
      by (cases "joint_2D input position meth ?out (Finite 0)") blast
    have l: "length (coordinates ?out) = 2" by (simp add: 1)
    from joint_2D_coordinates [OF l, of _ input position meth "Finite 0"] j
    have "\<forall>ii<2. (coordinates out' ! ii = NaN
                   \<or> offset_within 0.75 (position ! ii) (coordinates out' ! ii))
       \<and> ((meth = GAUSSIAN
             \<longrightarrow> same_sign (stencil_3x3 input position) (Finite (sample input position)))
          \<longrightarrow> coordinates out' ! ii \<noteq> NaN)"
      by simp
    with assms(1) 1 j show ?thesis
      by (auto simp: SubpixelLocationInternal_def joint_fit_def Let_def)
  next
    case 2
    obtain out' val' where j: "joint_3D Solve input position meth ?out (Finite 0) = (out', val')"
      by (cases "joint_3D Solve input position meth ?out (Finite 0)") blast
    have l: "length (coordinates ?out) = 3" by (simp add: 2)
    from joint_3D_coordinates [OF l, of _ Solve input position meth "Finite 0"] j
    have "\<forall>ii<3. (coordinates out' ! ii = NaN
                   \<or> offset_within 0.75 (position ! ii) (coordinates out' ! ii))
       \<and> ((meth = GAUSSIAN
             \<longrightarrow> same_sign (stencil_3x3x3 input position) (Finite (sample input position)))
          \<and> (\<forall>bs cs. length bs = 9 \<and> length cs = 3
                \<longrightarrow> (\<forall>ii<3. Solve (map Finite bs) (map Finite cs) ! ii \<noteq> NaN))
          \<longrightarrow> coordinates out' ! ii \<noteq> NaN)"
      by simp
    with assms(1) 2 j show ?thesis
      by (auto simp: SubpixelLocationInternal_def joint_fit_def Let_def)
  qed
qed


lemma SubpixelLocation_interior_eq:
  assumes "interior input position"
    and "forged input" "IsScalar input" "data_type_real input" "1 \<le> Dimensionality input"
    and "BooleanFromString polarity S_MINIMUM S_MAXIMUM = Inr invert"
    and "ParseMethod s_method (Dimensionality input) = Inr meth"
  shows "SubpixelLocation Solve input position polarity s_method
           = SubpixelLocationInternal Solve input position meth invert"
  using assms(2-7) interior_length [OF assms(1)] border_loop_of_interior [OF assms(1)]
  by (auto simp: SubpixelLocation_def Let_def Dimensionality_def)

lemma BooleanFromString_polarity:
  assumes "polarity \<in> {S_MINIMUM, S_MAXIMUM}"
  shows "BooleanFromString polarity S_MINIMUM S_MAXIMUM = Inr (polarity = S_MINIMUM)"
  using assms by (auto simp: BooleanFromString_def S_defs)

lemma Cramer_Finite:
  assumes "length bs = 9" "length cs = 3" "ii < 3"
  shows "Cramer (map Finite bs) (map Finite cs) ! ii \<noteq> NaN"
proof -
  from assms(1) obtain b0 b1 b2 b3 b4 b5 b6 b7 b8 where
    b: "bs = [b0, b1, b2, b3, b4, b5, b6, b7, b8]"
    by (auto simp: eval_nat_numeral length_Suc_conv)
  from assms(2) obtain c0 c1 c2 where c: "cs = [c0, c1, c2]"
    by (auto simp: eval_nat_numeral length_Suc_conv)
  from assms(3) have "ii = 0 \<or> ii = 1 \<or> ii = 2" by auto
  then show ?thesis
    by (auto simp: b c Cramer_def det_3x3_def Let_def)
qed

lemma SubpixelLocation_line_3_steep:
  "SubpixelLocation Solve (line_3 0 1 3) [1] S_MAXIMUM S_PARABOLIC_SEPARABLE
     = Inr \<lparr>coordinates = [Finite (- (1 / 2))], value = Finite 1\<rparr>"
  by (simp add: SubpixelLocation_def line_3_def IsScalar_def Dimensionality_def upt_1
       uint_minus_1_def BooleanFromString_def ParseMethod_def S_defs SubpixelLocationInternal_def
       separable_body_def shift_def Let_def)

lemma SubpixelLocation_line_3_steep_gaussian:
  "SubpixelLocation Solve (line_3 1 (exp 1) (exp 3)) [1] S_MAXIMUM S_GAUSSIAN_SEPARABLE
     = Inr \<lparr>coordinates = [Finite (- (1 / 2))], value = Finite (exp 1)\<rparr>"
  by (simp add: SubpixelLocation_def line_3_def IsScalar_def Dimensionality_def upt_1
       uint_minus_1_def BooleanFromString_def ParseMethod_def S_defs SubpixelLocationInternal_def
       separable_body_def shift_def Let_def log_transform_def)

lemma SubpixelLocation_spot_3x3:
  "SubpixelLocation Solve (spot_3x3 5) [1, 1] S_MAXIMUM S_GAUSSIAN
     = Inr \<lparr>coordinates = [NaN, NaN], value = Finite 5\<rparr>"
  by (simp add: SubpixelLocation_def spot_3x3_def IsScalar_def Dimensionality_def upt_2 upt_6 upt_9
       uint_minus_1_def BooleanFromString_def ParseMethod_def S_defs SubpixelLocationInternal_def
       joint_fit_def joint_2D_def stencil_3x3_def quadratic_fit_3x3_def least_squares_def w_3x3_def
       log_transform_def shift_def Let_def std_max_def minus_dfloat_def)


text \<open>
  The tolerance test does not reject NaN. On the 3x3 image that is \<open>5\<close> at its centre and \<open>0\<close>
  elsewhere, the joint Gaussian method takes the logarithm of the zeros, the least-squares
  sums add \<open>+\<infinity>\<close> and \<open>-\<infinity>\<close>, and NaN passes both the test \<^verbatim>\<open>denom == 0\<close> and the
  tolerance test of \<^verbatim>\<open>quadratic_fit_3x3\<close>: both returned coordinates are NaN, which are
  not within \<open>0.75\<close> of the candidate's.
\<close>

theorem SubpixelLocation_joint_gaussian_NaN:
  "interior (spot_3x3 5) [1, 1]
   \<and> ParseMethod S_GAUSSIAN (Dimensionality (spot_3x3 5)) = Inr GAUSSIAN
   \<and> SubpixelLocation Cramer (spot_3x3 5) [1, 1] S_MAXIMUM S_GAUSSIAN
       = Inr \<lparr>coordinates = [NaN, NaN], value = Finite 5\<rparr>
   \<and> \<not> offset_within 0.75 ([1, 1] ! 0) ([NaN, NaN] ! 0)
   \<and> \<not> offset_within 0.75 ([1, 1] ! 1) ([NaN, NaN] ! 1)"
proof -
  have i: "interior (spot_3x3 5) [1, 1]"
    by (simp add: interior_def spot_3x3_def)
  have p: "ParseMethod S_GAUSSIAN (Dimensionality (spot_3x3 5)) = Inr GAUSSIAN"
    by (simp add: ParseMethod_def S_defs Dimensionality_def spot_3x3_def)
  have n: "\<not> offset_within 0.75 ([1, 1] ! 0) ([NaN, NaN] ! 0)"
    "\<not> offset_within 0.75 ([1, 1] ! 1) ([NaN, NaN] ! 1)"
    by (simp_all add: offset_within_def)
  show ?thesis by (intro conjI i p n SubpixelLocation_spot_3x3)
qed

text \<open>
  C10, amended. The arithmetic is exact (no rounding, no overflow) and the samples are real
  numbers. For an interior candidate of a forged, scalar, real-valued image of at least
  one dimension and either polarity:

  \<^item> the Linear method returns a result, each coordinate of which is a real number within
    \<open>1\<close> of the candidate's;
  \<^item> the joint Parabolic and joint Gaussian methods (the method that \<open>ParseMethod\<close>
    resolves to, on images of two or three dimensions) return a result, each coordinate of
    which is NaN or a real number within \<open>0.75\<close> of the candidate's;
  \<^item> no coordinate of that result is NaN when, for the Gaussian method, all samples of the
    stencil are non-zero and have the sign of the centre sample and when, on three
    dimensions, the solver returns no NaN for a system of real numbers;
  \<^item> the separable methods have no such bound: on the interior candidate of the 3-sample
    line \<open>0, 1, 3\<close> the separable parabolic fit, and on the line \<open>1, e, e\<^sup>3\<close> the
    separable Gaussian fit, return the coordinate \<open>-1/2\<close>, at distance \<open>3/2\<close> from the
    candidate's \<open>1\<close>.
\<close>

theorem SubpixelLocation_offset_bounds:
  assumes "interior input position"
    and "forged input" "IsScalar input" "data_type_real input" "1 \<le> Dimensionality input"
    and "polarity \<in> {S_MINIMUM, S_MAXIMUM}"
  shows "(\<exists>r. SubpixelLocation Solve input position polarity S_LINEAR = Inr r
            \<and> (\<forall>ii<length position. offset_within 1 (position ! ii) (coordinates r ! ii)))
       \<and> (ParseMethod s_method (Dimensionality input) \<in> {Inr PARABOLIC, Inr GAUSSIAN}
            \<and> Dimensionality input \<in> {2, 3}
          \<longrightarrow> (\<exists>r. SubpixelLocation Solve input position polarity s_method = Inr r
                \<and> (\<forall>ii<length position.
                      (coordinates r ! ii = NaN
                       \<or> offset_within 0.75 (position ! ii) (coordinates r ! ii))
                    \<and> ((ParseMethod s_method (Dimensionality input) = Inr GAUSSIAN
                          \<longrightarrow> same_sign (if Dimensionality input = 2
                                         then stencil_3x3 input position
                                         else stencil_3x3x3 input position)
                                (Finite (sample input position)))
                       \<and> (Dimensionality input = 3
                            \<longrightarrow> (\<forall>bs cs. length bs = 9 \<and> length cs = 3
                                   \<longrightarrow> (\<forall>jj<3. Solve (map Finite bs) (map Finite cs) ! jj \<noteq> NaN)))
                       \<longrightarrow> coordinates r ! ii \<noteq> NaN))))
       \<and> interior (line_3 0 1 3) [1]
       \<and> SubpixelLocation Solve (line_3 0 1 3) [1] S_MAXIMUM S_PARABOLIC_SEPARABLE
           = Inr \<lparr>coordinates = [Finite (- (1 / 2))], value = Finite 1\<rparr>
       \<and> interior (line_3 1 (exp 1) (exp 3)) [1]
       \<and> SubpixelLocation Solve (line_3 1 (exp 1) (exp 3)) [1] S_MAXIMUM S_GAUSSIAN_SEPARABLE
           = Inr \<lparr>coordinates = [Finite (- (1 / 2))], value = Finite (exp 1)\<rparr>
       \<and> \<not> offset_within 1 ([1] ! 0) (Finite (- (1 / 2)))"
proof -
  note b = BooleanFromString_polarity [OF assms(6)]
  have len: "length position = Dimensionality input"
    using interior_length [OF assms(1)] by (simp add: Dimensionality_def)
  have lin: "\<exists>r. SubpixelLocation Solve input position polarity S_LINEAR = Inr r
            \<and> (\<forall>ii<length position. offset_within 1 (position ! ii) (coordinates r ! ii))"
  proof -
    have p: "ParseMethod S_LINEAR (Dimensionality input) = Inr LINEAR"
      by (simp add: ParseMethod_def Let_def)
    note e = SubpixelLocation_interior_eq [OF assms(1-5) b p, of Solve]
    obtain r where r: "SubpixelLocationInternal Solve input position LINEAR
                         (polarity = S_MINIMUM) = Inr r"
      by (auto simp: SubpixelLocationInternal_def Let_def)
    from SubpixelLocationInternal_LINEAR_offsets [OF r] e r len show ?thesis by simp
  qed
  have joint: "\<exists>r. SubpixelLocation Solve input position polarity s_method = Inr r
                \<and> (\<forall>ii<length position.
                      (coordinates r ! ii = NaN
                       \<or> offset_within 0.75 (position ! ii) (coordinates r ! ii))
                    \<and> ((ParseMethod s_method (Dimensionality input) = Inr GAUSSIAN
                          \<longrightarrow> same_sign (if Dimensionality input = 2
                                         then stencil_3x3 input position
                                         else stencil_3x3x3 input position)
                                (Finite (sample input position)))
                       \<and> (Dimensionality input = 3
                            \<longrightarrow> (\<forall>bs cs. length bs = 9 \<and> length cs = 3
                                   \<longrightarrow> (\<forall>jj<3. Solve (map Finite bs) (map Finite cs) ! jj \<noteq> NaN)))
                       \<longrightarrow> coordinates r ! ii \<noteq> NaN))"
    if m: "ParseMethod s_method (Dimensionality input) \<in> {Inr PARABOLIC, Inr GAUSSIAN}"
      and d: "Dimensionality input \<in> {2, 3}"
  proof -
    from m obtain meth where p: "ParseMethod s_method (Dimensionality input) = Inr meth"
      and j: "meth = PARABOLIC \<or> meth = GAUSSIAN"
      by auto
    note e = SubpixelLocation_interior_eq [OF assms(1-5) b p, of Solve]
    from SubpixelLocationInternal_joint_offsets [OF j d, of Solve position "polarity = S_MINIMUM"]
    show ?thesis unfolding e len p by simp
  qed
  have "interior (line_3 0 1 3) [1]" "interior (line_3 1 (exp 1) (exp 3)) [1]"
    by (simp_all add: interior_def line_3_def)
  moreover have "\<not> offset_within 1 ([1] ! 0) (Finite (- (1 / 2)))"
    by (simp add: offset_within_def)
  ultimately show ?thesis
    using lin joint SubpixelLocation_line_3_steep [of Solve]
      SubpixelLocation_line_3_steep_gaussian [of Solve]
    by (intro conjI impI) auto
qed


lemma SubpixelLocation_img2d_LINEAR:
  "SubpixelLocation Solve (img2d (1/4) (- (1/2)) 4) [1, 1] S_MAXIMUM S_LINEAR
     = Inr \<lparr>coordinates = [Finite (7 / 5), Finite (1 / 2)], value = Finite (59 / 16)\<rparr>"
  by (simp add: SubpixelLocation_def img2d_def IsScalar_def Dimensionality_def upt_2
       uint_minus_1_def BooleanFromString_def ParseMethod_def S_defs SubpixelLocationInternal_def
       linear_body_def shift_def Let_def p2_def p1_def)

theorem SubpixelLocation_offset_bounds_witness:
  "interior (img2d (1/4) (- (1/2)) 4) [1, 1]
   \<and> forged (img2d (1/4) (- (1/2)) 4) \<and> IsScalar (img2d (1/4) (- (1/2)) 4)
   \<and> data_type_real (img2d (1/4) (- (1/2)) 4) \<and> 1 \<le> Dimensionality (img2d (1/4) (- (1/2)) 4)
   \<and> SubpixelLocation Cramer (img2d (1/4) (- (1/2)) 4) [1, 1] S_MAXIMUM S_LINEAR
       = Inr \<lparr>coordinates = [Finite (7 / 5), Finite (1 / 2)], value = Finite (59 / 16)\<rparr>
   \<and> offset_within 1 ([1, 1] ! 0) ([Finite (7 / 5), Finite (1 / 2)] ! 0)
   \<and> offset_within 1 ([1, 1] ! 1) ([Finite (7 / 5), Finite (1 / 2)] ! 1)
   \<and> ParseMethod S_PARABOLIC (Dimensionality (img2d (1/4) (- (1/2)) 4)) = Inr PARABOLIC
   \<and> Dimensionality (img2d (1/4) (- (1/2)) 4) = 2
   \<and> SubpixelLocation Cramer (img2d (1/4) (- (1/2)) 4) [1, 1] S_MAXIMUM S_PARABOLIC
       = Inr \<lparr>coordinates = [Finite (5 / 4), Finite (1 / 2)], value = Finite 4\<rparr>
   \<and> offset_within 0.75 ([1, 1] ! 0) ([Finite (5 / 4), Finite (1 / 2)] ! 0)
   \<and> offset_within 0.75 ([1, 1] ! 1) ([Finite (5 / 4), Finite (1 / 2)] ! 1)"
proof -
  let ?img = "img2d (1/4) (- (1/2)) 4"
  have i: "interior ?img [1, 1]"
    by (simp add: interior_img2d)
  have f: "forged ?img" "IsScalar ?img" "data_type_real ?img" "1 \<le> Dimensionality ?img"
    by (simp_all add: img2d_def IsScalar_def Dimensionality_def)
  have d: "Dimensionality ?img = 2"
    by (simp add: img2d_def Dimensionality_def)
  have pol: "S_MAXIMUM \<in> {S_MINIMUM, S_MAXIMUM}" by simp
  have l: "SubpixelLocation Cramer ?img [1, 1] S_MAXIMUM S_LINEAR
             = Inr \<lparr>coordinates = [Finite (7 / 5), Finite (1 / 2)], value = Finite (59 / 16)\<rparr>"
    by (rule SubpixelLocation_img2d_LINEAR)
  have m: "ParseMethod S_PARABOLIC (Dimensionality ?img) = Inr PARABOLIC"
    by (simp add: ParseMethod_def S_defs d)
  have p: "SubpixelLocation Cramer ?img [1, 1] S_MAXIMUM S_PARABOLIC
             = Inr \<lparr>coordinates = [Finite (5 / 4), Finite (1 / 2)], value = Finite 4\<rparr>"
    using SubpixelLocation_img2d [of "1/4" "- (1/2)" Cramer 4] by simp
  note t = SubpixelLocation_offset_bounds [OF i f pol, of Cramer S_PARABOLIC]
  from t [THEN conjunct1] have
    "\<forall>ii<length [1, 1 :: nat]. offset_within 1 ([1, 1] ! ii) ([Finite (7 / 5), Finite (1 / 2)] ! ii)"
    unfolding l by simp
  from this [THEN spec, of 0] this [THEN spec, of 1]
  have a: "offset_within 1 ([1, 1] ! 0) ([Finite (7 / 5), Finite (1 / 2)] ! 0)"
    "offset_within 1 ([1, 1] ! 1) ([Finite (7 / 5), Finite (1 / 2)] ! 1)"
    by simp_all
  have "ParseMethod S_PARABOLIC (Dimensionality ?img) \<in> {Inr PARABOLIC, Inr GAUSSIAN}
          \<and> Dimensionality ?img \<in> {2, 3}"
    using m d by simp
  from t [THEN conjunct2, THEN conjunct1, THEN mp, OF this] have
    "\<forall>ii<length [1, 1 :: nat].
        [Finite (5 / 4), Finite (1 / 2)] ! ii = NaN
        \<or> offset_within 0.75 ([1, 1] ! ii) ([Finite (5 / 4), Finite (1 / 2)] ! ii)"
    unfolding p by simp
  from this [THEN spec, of 0] this [THEN spec, of 1]
  have b: "offset_within 0.75 ([1, 1] ! 0) ([Finite (5 / 4), Finite (1 / 2)] ! 0)"
    "offset_within 0.75 ([1, 1] ! 1) ([Finite (5 / 4), Finite (1 / 2)] ! 1)"
    by simp_all
  show ?thesis by (intro conjI i f l a m d p b)
qed

subsection \<open>Minimum is maximum on the negated image\<close>

lemma foldl_commute:
  assumes "\<And>out ii. bodyA (f out) ii = f (bodyB out ii)"
  shows "foldl bodyA (f out) axes = f (foldl bodyB out axes)"
  by (induction axes arbitrary: out) (simp_all add: assms)

lemma log_transform_uminus: "log_transform (map uminus t) invert = log_transform t (\<not> invert)"
  by (simp add: log_transform_def o_def)

lemma foldl_uminus:
  fixes acc :: dfloat
  assumes "\<forall>jj\<in>set js. jj < length t"
  shows "foldl (\<lambda>acc jj. acc + c jj * map uminus t ! jj) (- acc) js
           = - foldl (\<lambda>acc jj. acc + c jj * t ! jj) acc js"
  using assms
proof (induction js arbitrary: acc)
  case Nil
  then show ?case by simp
next
  case (Cons jj js)
  let ?F' = "\<lambda>acc jj. acc + c jj * map uminus t ! jj"
  let ?F = "\<lambda>acc jj. acc + c jj * t ! jj"
  from Cons.prems have e: "- acc + c jj * map uminus t ! jj = - (acc + c jj * t ! jj)"
    by (simp add: times_neg_right neg_plus_neg)
  from Cons.prems have js: "\<forall>jj\<in>set js. jj < length t" by simp
  have "foldl ?F' (- acc) (jj # js) = foldl ?F' (- acc + c jj * map uminus t ! jj) js"
    by (simp only: foldl_Cons)
  also have "\<dots> = foldl ?F' (- (acc + c jj * t ! jj)) js"
    by (simp only: e)
  also have "\<dots> = - foldl ?F (acc + c jj * t ! jj) js"
    by (rule Cons.IH [OF js])
  also have "\<dots> = - foldl ?F acc (jj # js)"
    by (simp only: foldl_Cons)
  finally show ?case .
qed

lemma least_squares_uminus:
  assumes "length t = n"
  shows "least_squares w (map uminus t) rows n d = map uminus (least_squares w t rows n d)"
proof -
  have "foldl (\<lambda>acc jj. acc + Finite (w ! (ii * n + jj)) * map uminus t ! jj) (Finite 0) [0..<n]
          = - foldl (\<lambda>acc jj. acc + Finite (w ! (ii * n + jj)) * t ! jj) (Finite 0) [0..<n]" for ii
    using foldl_uminus [of "[0..<n]" t "\<lambda>jj. Finite (w ! (ii * n + jj))" "Finite 0"] assms by simp
  then show ?thesis
    by (simp add: least_squares_def divide_neg_left)
qed

lemma quadratic_fit_3x3_uminus:
  assumes "length t = 9"
  shows "quadratic_fit_3x3 (map uminus t) x y (- val)
           = (case quadratic_fit_3x3 t x y val of (ok, x', y', v) \<Rightarrow> (ok, x', y', - v))"
proof -
  define a where "a = least_squares w_3x3 t 6 9 6"
  have l: "length a = 6" by (simp add: a_def length_least_squares)
  have n: "least_squares w_3x3 (map uminus t) 6 9 6 = map uminus a"
    by (simp add: a_def least_squares_uminus assms)
  define d where "d = a ! 5 * a ! 5 - Finite 4 * a ! 3 * a ! 4"
  define X where "X = (Finite 2 * a ! 4 * a ! 1 - a ! 5 * a ! 2) / d"
  define Y where "Y = (Finite 2 * a ! 3 * a ! 2 - a ! 5 * a ! 1) / d"
  define V where "V = a ! 0 + a ! 1 * X + a ! 2 * Y + a ! 3 * X * X + a ! 4 * Y * Y
                              + a ! 5 * X * Y"
  have p: "quadratic_fit_3x3 t x y val =
          (if d = Finite 0 then (False, x, y, val)
           else if X < Finite (- 0.75) \<or> X > Finite 0.75 \<or> Y < Finite (- 0.75) \<or> Y > Finite 0.75
                then (False, X, Y, val)
           else (True, X, Y, V))"
    unfolding quadratic_fit_3x3_def Let_def a_def d_def X_def Y_def V_def by (rule refl)
  have d': "map uminus a ! 5 * map uminus a ! 5 - Finite 4 * map uminus a ! 3 * map uminus a ! 4 = d"
    by (simp add: l d_def times_neg_left times_neg_right)
  have X': "(Finite 2 * map uminus a ! 4 * map uminus a ! 1 - map uminus a ! 5 * map uminus a ! 2) / d = X"
    by (simp add: l X_def times_neg_left times_neg_right)
  have Y': "(Finite 2 * map uminus a ! 3 * map uminus a ! 2 - map uminus a ! 5 * map uminus a ! 1) / d = Y"
    by (simp add: l Y_def times_neg_left times_neg_right)
  have V': "map uminus a ! 0 + map uminus a ! 1 * X + map uminus a ! 2 * Y
              + map uminus a ! 3 * X * X + map uminus a ! 4 * Y * Y + map uminus a ! 5 * X * Y = - V"
    by (simp add: l V_def times_neg_left neg_plus_neg)
  have q: "quadratic_fit_3x3 (map uminus t) x y (- val) =
          (if d = Finite 0 then (False, x, y, - val)
           else if X < Finite (- 0.75) \<or> X > Finite 0.75 \<or> Y < Finite (- 0.75) \<or> Y > Finite 0.75
                then (False, X, Y, - val)
           else (True, X, Y, - V))"
    unfolding quadratic_fit_3x3_def Let_def n d' X' Y' V' by (rule refl)
  show ?thesis
    unfolding p q by simp
qed

lemma quadratic_fit_3x3x3_uminus:
  assumes "length t = 27"
    and "\<forall>b c. length b = 9 \<longrightarrow> length c = 3 \<longrightarrow> Solve (map uminus b) (map uminus c) = Solve b c"
  shows "quadratic_fit_3x3x3 Solve (map uminus t) x y z (- val)
           = (case quadratic_fit_3x3x3 Solve t x y z val of
                (ok, x', y', z', v) \<Rightarrow> (ok, x', y', z', - v))"
proof -
  define a where "a = least_squares w_3x3x3 t 10 27 18"
  have l: "length a = 10" by (simp add: a_def length_least_squares)
  have n: "least_squares w_3x3x3 (map uminus t) 10 27 18 = map uminus a"
    by (simp add: a_def least_squares_uminus assms(1))
  define b where "b = [Finite 2 * a ! 4, a ! 9, a ! 8, a ! 9, Finite 2 * a ! 5, a ! 7, a ! 8, a ! 7,
                       Finite 2 * a ! 6]"
  define c where "c = [- a ! 1, - a ! 2, - a ! 3]"
  define X where "X = Solve b c ! 0"
  define Y where "Y = Solve b c ! 1"
  define Z where "Z = Solve b c ! 2"
  define V where "V = a ! 0 + a ! 1 * X + a ! 2 * Y + a ! 3 * Z + a ! 4 * X * X + a ! 5 * Y * Y
                 + a ! 6 * Z * Z + a ! 7 * Y * Z + a ! 8 * Z * X + a ! 9 * X * Y"
  have p: "quadratic_fit_3x3x3 Solve t x y z val =
          (if X < Finite (- 0.75) \<or> X > Finite 0.75 \<or> Y < Finite (- 0.75) \<or> Y > Finite 0.75
              \<or> Z < Finite (- 0.75) \<or> Z > Finite 0.75
           then (False, X, Y, Z, val)
           else (True, X, Y, Z, V))"
    unfolding quadratic_fit_3x3x3_def Let_def a_def b_def c_def X_def Y_def Z_def V_def
    by (rule refl)
  have b': "[Finite 2 * map uminus a ! 4, map uminus a ! 9, map uminus a ! 8, map uminus a ! 9,
             Finite 2 * map uminus a ! 5, map uminus a ! 7, map uminus a ! 8, map uminus a ! 7,
             Finite 2 * map uminus a ! 6] = map uminus b"
    by (simp add: l b_def times_neg_right)
  have c': "[- map uminus a ! 1, - map uminus a ! 2, - map uminus a ! 3] = map uminus c"
    by (simp add: l c_def)
  have "length b = 9" "length c = 3"
    by (simp_all add: b_def c_def)
  with assms(2) have s: "Solve (map uminus b) (map uminus c) = Solve b c"
    by blast
  have V': "map uminus a ! 0 + map uminus a ! 1 * X + map uminus a ! 2 * Y + map uminus a ! 3 * Z
              + map uminus a ! 4 * X * X + map uminus a ! 5 * Y * Y + map uminus a ! 6 * Z * Z
              + map uminus a ! 7 * Y * Z + map uminus a ! 8 * Z * X + map uminus a ! 9 * X * Y = - V"
    by (simp add: l V_def times_neg_left neg_plus_neg)
  have q: "quadratic_fit_3x3x3 Solve (map uminus t) x y z (- val) =
          (if X < Finite (- 0.75) \<or> X > Finite 0.75 \<or> Y < Finite (- 0.75) \<or> Y > Finite 0.75
              \<or> Z < Finite (- 0.75) \<or> Z > Finite 0.75
           then (False, X, Y, Z, - val)
           else (True, X, Y, Z, - V))"
    unfolding quadratic_fit_3x3x3_def Let_def n b' c' s V'
    unfolding X_def [symmetric] Y_def [symmetric] Z_def [symmetric] V'
    by (rule refl)
  show ?thesis
    unfolding p q by simp
qed

lemma stencil_3x3_negate_image:
  "stencil_3x3 (negate_image input) position = map uminus (stencil_3x3 input position)"
  by (simp add: stencil_3x3_def negate_image_def)

lemma stencil_3x3x3_negate_image:
  "stencil_3x3x3 (negate_image input) position = map uminus (stencil_3x3x3 input position)"
  by (simp add: stencil_3x3x3_def negate_image_def)

lemma length_stencil_3x3: "length (stencil_3x3 input position) = 9"
  by (simp add: stencil_3x3_def)

lemma length_stencil_3x3x3: "length (stencil_3x3x3 input position) = 27"
  by (simp add: stencil_3x3x3_def)

lemma linear_body_negate_image:
  "linear_body (negate_image input) position False (negate_value out) ii
     = negate_value (linear_body input position True out ii)"
  by (simp add: linear_body_def negate_image_def negate_value_def Let_def)

lemma integer_body_negate_value:
  "integer_body position (negate_value out) ii = negate_value (integer_body position out ii)"
  by (simp add: integer_body_def negate_value_def)

lemma quadratic_fit_3x3_val:
  assumes "quadratic_fit_3x3 t x y val = (ok, x', y', v)"
  shows "quadratic_fit_3x3 t x y val2 = (ok, x', y', if ok then v else val2)"
  using assms by (auto simp: quadratic_fit_3x3_def Let_def split: if_splits)

lemma quadratic_fit_3x3x3_val:
  assumes "quadratic_fit_3x3x3 Solve t x y z val = (ok, x', y', z', v)"
  shows "quadratic_fit_3x3x3 Solve t x y z val2 = (ok, x', y', z', if ok then v else val2)"
  using assms by (auto simp: quadratic_fit_3x3x3_def Let_def split: if_splits)


lemma std_max_neg_left: "std_max (- a) b = - std_min a (- b)"
  using std_max_neg [of a "- b"] by simp

lemma separable_body_negate_image:
  assumes "meth = GAUSSIAN_SEPARABLE \<longrightarrow> sample input position \<noteq> 0"
  shows "separable_body (negate_image input) position meth False (negate_value out) ii
     = negate_value (separable_body input position meth True out ii)"
proof (cases "meth = GAUSSIAN_SEPARABLE")
  case False
  define a where "a = sample input (shift position ii (- 1))"
  define b where "b = sample input position"
  define c where "c = sample input (shift position ii 1)"
  have H1: "(z - x) / (4 * y - 2 * x - 2 * z) = (x - z) / (2 * x - 4 * y + 2 * z)"
    for x y z :: real
  proof -
    have n: "z - x = - (x - z)" and d: "4 * y - 2 * x - 2 * z = - (2 * x - 4 * y + 2 * z)"
      by simp_all
    show ?thesis unfolding n d by (rule minus_divide_divide)
  qed
  have H2: "std_max (- v) (Finite (- y - (z - x) * (z - x) / (16 * y - 8 * x - 8 * z)))
              = - std_min v (Finite (y - (x - z) * (x - z) / (8 * x - 16 * y + 8 * z)))"
    for v :: dfloat and x y z :: real
  proof -
    have N: "(z - x) * (z - x) = (x - z) * (x - z)"
      by (simp add: algebra_simps)
    have D: "16 * y - 8 * x - 8 * z = - (8 * x - 16 * y + 8 * z)"
      by simp
    have "(z - x) * (z - x) / (16 * y - 8 * x - 8 * z)
            = (x - z) * (x - z) / (- (8 * x - 16 * y + 8 * z))"
      by (simp only: N D)
    also have "\<dots> = - ((x - z) * (x - z) / (8 * x - 16 * y + 8 * z))"
      by (rule divide_minus_right)
    finally have Q: "(z - x) * (z - x) / (16 * y - 8 * x - 8 * z)
            = - ((x - z) * (x - z) / (8 * x - 16 * y + 8 * z))" .
    define R where "R = (x - z) * (x - z) / (8 * x - 16 * y + 8 * z)"
    have "Finite (- y - - R) = - Finite (y - R)" by simp
    then show ?thesis unfolding Q R_def [symmetric] by (simp only: std_max_neg)
  qed
  show ?thesis
  proof (cases "a - 2 * b + c = 0")
    case True
    with False show ?thesis
      by (simp add: separable_body_def negate_image_def negate_value_def Let_def
          a_def [symmetric] b_def [symmetric] c_def [symmetric])
  next
    case nz: False
    with False show ?thesis
      by (simp add: separable_body_def negate_image_def negate_value_def Let_def
          a_def [symmetric] b_def [symmetric] c_def [symmetric] H1 H2)
  qed
next
  case True
  define a where "a = sample input (shift position ii (- 1))"
  define b where "b = sample input position"
  define c where "c = sample input (shift position ii 1)"
  from True assms have nz: "b \<noteq> 0" by (simp add: b_def)
  define T where "T = log_transform [Finite a, Finite b, Finite c] (b < 0)"
  have "(\<not> 0 < b) = (b < 0)" using nz by auto
  then have "log_transform (map uminus [Finite a, Finite b, Finite c]) (0 < b) = T"
    by (simp only: log_transform_uminus T_def)
  then have L: "log_transform [Finite (- a), Finite (- b), Finite (- c)] (0 < b) = T"
    by simp
  have "length T = 3" by (simp add: T_def log_transform_def)
  then obtain t0 t1 t2 where t: "T = [t0, t1, t2]"
    by (auto simp: eval_nat_numeral length_Suc_conv)
  from True nz show ?thesis
    by (simp add: separable_body_def negate_image_def negate_value_def Let_def
          a_def [symmetric] b_def [symmetric] c_def [symmetric] L T_def [symmetric] t
          std_max_neg std_max_neg_left)
qed


lemma joint_2D_negate_image:
  assumes "meth = GAUSSIAN \<longrightarrow> sample input position \<noteq> 0"
  shows "joint_2D (negate_image input) position meth (negate_value out) (Finite 0)
     = (case joint_2D input position meth out (Finite 0) of
          (out', val') \<Rightarrow> (negate_value out', - val'))"
proof -
  define t where "t = stencil_3x3 input position"
  have lt: "length t = 9" by (simp add: t_def length_stencil_3x3)
  note st = stencil_3x3_negate_image [of input position, folded t_def]
  show ?thesis
  proof (cases "meth = GAUSSIAN")
    case False
    obtain ok x y v where q: "quadratic_fit_3x3 t (Finite 0) (Finite 0) (Finite 0) = (ok, x, y, v)"
      by (cases "quadratic_fit_3x3 t (Finite 0) (Finite 0) (Finite 0)") blast
    with quadratic_fit_3x3_uminus [OF lt, of "Finite 0" "Finite 0" "Finite 0"]
    have q': "quadratic_fit_3x3 (map uminus t) (Finite 0) (Finite 0) (Finite 0) = (ok, x, y, - v)"
      by simp
    from False q q' show ?thesis
      by (cases ok) (simp_all add: joint_2D_def st t_def [symmetric] Let_def negate_value_def)
  next
    case True
    with assms have nz: "sample input position \<noteq> 0" by simp
    have c: "t ! 4 = Finite (sample input position)"
      by (simp add: t_def stencil_3x3_centre)
    define inverted where "inverted = (t ! 4 < Finite 0)"
    have i1: "(t ! 4 < Finite 0) = inverted"
      by (simp add: inverted_def)
    have i2: "(map uminus t ! 4 < Finite 0) = (\<not> inverted)"
      using nz lt by (auto simp: c inverted_def)
    obtain ok x y v where
      q: "quadratic_fit_3x3 (log_transform t inverted) (Finite 0) (Finite 0) (Finite 0) = (ok, x, y, v)"
      by (cases "quadratic_fit_3x3 (log_transform t inverted) (Finite 0) (Finite 0) (Finite 0)") blast
    have vv: "\<not> ok \<Longrightarrow> v = Finite 0"
      using q by (auto simp: quadratic_fit_3x3_def Let_def split: if_splits)
    from True q vv show ?thesis
      by (cases ok; cases inverted)
         (simp_all add: joint_2D_def st t_def [symmetric] Let_def negate_value_def i1 i2
            log_transform_uminus)
  qed
qed

lemma joint_3D_negate_image:
  assumes "meth = GAUSSIAN \<longrightarrow> sample input position \<noteq> 0"
    and "\<forall>b c. length b = 9 \<longrightarrow> length c = 3 \<longrightarrow> Solve (map uminus b) (map uminus c) = Solve b c"
  shows "joint_3D Solve (negate_image input) position meth (negate_value out) (Finite 0)
     = (case joint_3D Solve input position meth out (Finite 0) of
          (out', val') \<Rightarrow> (negate_value out', - val'))"
proof -
  define t where "t = stencil_3x3x3 input position"
  have lt: "length t = 27" by (simp add: t_def length_stencil_3x3x3)
  note st = stencil_3x3x3_negate_image [of input position, folded t_def]
  show ?thesis
  proof (cases "meth = GAUSSIAN")
    case False
    obtain ok x y z v where
      q: "quadratic_fit_3x3x3 Solve t (Finite 0) (Finite 0) (Finite 0) (Finite 0) = (ok, x, y, z, v)"
      by (cases "quadratic_fit_3x3x3 Solve t (Finite 0) (Finite 0) (Finite 0) (Finite 0)") blast
    with quadratic_fit_3x3x3_uminus [OF lt assms(2), of "Finite 0" "Finite 0" "Finite 0" "Finite 0"]
    have q': "quadratic_fit_3x3x3 Solve (map uminus t) (Finite 0) (Finite 0) (Finite 0) (Finite 0)
                = (ok, x, y, z, - v)"
      by simp
    from False q q' show ?thesis
      by (cases ok) (simp_all add: joint_3D_def st t_def [symmetric] Let_def negate_value_def)
  next
    case True
    with assms have nz: "sample input position \<noteq> 0" by simp
    have c: "t ! 13 = Finite (sample input position)"
      by (simp add: t_def stencil_3x3x3_centre)
    define inverted where "inverted = (t ! 13 < Finite 0)"
    have i1: "(t ! 13 < Finite 0) = inverted"
      by (simp add: inverted_def)
    have i2: "(map uminus t ! 13 < Finite 0) = (\<not> inverted)"
      using nz lt by (auto simp: c inverted_def)
    obtain ok x y z v where
      q: "quadratic_fit_3x3x3 Solve (log_transform t inverted) (Finite 0) (Finite 0) (Finite 0) (Finite 0) = (ok, x, y, z, v)"
      by (cases "quadratic_fit_3x3x3 Solve (log_transform t inverted) (Finite 0) (Finite 0) (Finite 0) (Finite 0)") blast
    have vv: "\<not> ok \<Longrightarrow> v = Finite 0"
      using q by (auto simp: quadratic_fit_3x3x3_def Let_def split: if_splits)
    from True q vv show ?thesis
      by (cases ok; cases inverted)
         (simp_all add: joint_3D_def st t_def [symmetric] Let_def negate_value_def i1 i2
            log_transform_uminus)
  qed
qed


lemma Dimensionality_negate_image: "Dimensionality (negate_image input) = Dimensionality input"
  by (simp add: Dimensionality_def negate_image_def)

lemma joint_fit_negate_image:
  assumes "meth = GAUSSIAN \<longrightarrow> sample input position \<noteq> 0"
    and "Dimensionality input = 3
           \<longrightarrow> (\<forall>b c. length b = 9 \<longrightarrow> length c = 3
                  \<longrightarrow> Solve (map uminus b) (map uminus c) = Solve b c)"
  shows "joint_fit Solve (negate_image input) position meth False (negate_value out)
     = map_sum id negate_value (joint_fit Solve input position meth True out)"
proof -
  consider "Dimensionality input = 2" | "Dimensionality input = 3"
    | "Dimensionality input \<noteq> 2" "Dimensionality input \<noteq> 3"
    by blast
  then show ?thesis
  proof cases
    case 1
    with joint_2D_negate_image [OF assms(1), of out] show ?thesis
      by (cases "joint_2D input position meth out (Finite 0)")
         (auto simp: joint_fit_def Dimensionality_negate_image negate_value_def std_max_neg)
  next
    case 2
    with assms(2) have s: "\<forall>b c. length b = 9 \<longrightarrow> length c = 3
                  \<longrightarrow> Solve (map uminus b) (map uminus c) = Solve b c"
      by simp
    from 2 joint_3D_negate_image [OF assms(1) s, of out] show ?thesis
      by (cases "joint_3D Solve input position meth out (Finite 0)")
         (auto simp: joint_fit_def Dimensionality_negate_image negate_value_def std_max_neg)
  next
    case 3
    then show ?thesis
      by (simp add: joint_fit_def Dimensionality_negate_image)
  qed
qed

lemma SubpixelLocationInternal_negate_image:
  assumes "meth \<in> {GAUSSIAN, GAUSSIAN_SEPARABLE} \<longrightarrow> sample input position \<noteq> 0"
    and "Dimensionality input = 3
           \<longrightarrow> (\<forall>b c. length b = 9 \<longrightarrow> length c = 3
                  \<longrightarrow> Solve (map uminus b) (map uminus c) = Solve b c)"
  shows "SubpixelLocationInternal Solve (negate_image input) position meth False
     = map_sum id negate_value (SubpixelLocationInternal Solve input position meth True)"
proof -
  let ?out = "\<lparr>coordinates = replicate (Dimensionality input) (Finite 0),
               value = Finite (sample input position)\<rparr>"
  have out: "\<lparr>coordinates = replicate (Dimensionality input) (Finite 0),
              value = Finite (sample (negate_image input) position)\<rparr> = negate_value ?out"
    by (simp add: negate_value_def negate_image_def)
  have lin: "foldl (linear_body (negate_image input) position False) (negate_value out) axes
               = negate_value (foldl (linear_body input position True) out axes)" for out axes
    by (rule foldl_commute) (rule linear_body_negate_image)
  have int: "foldl (integer_body position) (negate_value out) axes
               = negate_value (foldl (integer_body position) out axes)" for out axes
    by (rule foldl_commute) (rule integer_body_negate_value)
  have sep: "foldl (separable_body (negate_image input) position m False) (negate_value out) axes
               = negate_value (foldl (separable_body input position m True) out axes)"
    if "m = GAUSSIAN_SEPARABLE \<longrightarrow> sample input position \<noteq> 0" for m out axes
    by (rule foldl_commute) (rule separable_body_negate_image [OF that])
  show ?thesis
  proof (cases meth)
    case LINEAR
    then show ?thesis
      by (simp add: SubpixelLocationInternal_def Let_def Dimensionality_negate_image out lin)
  next
    case PARABOLIC_SEPARABLE
    then show ?thesis
      by (simp add: SubpixelLocationInternal_def Let_def Dimensionality_negate_image out sep)
  next
    case GAUSSIAN_SEPARABLE
    with assms(1) show ?thesis
      by (simp add: SubpixelLocationInternal_def Let_def Dimensionality_negate_image out sep)
  next
    case PARABOLIC
    then show ?thesis
      by (simp add: SubpixelLocationInternal_def Let_def Dimensionality_negate_image out
          joint_fit_negate_image [OF _ assms(2)])
  next
    case GAUSSIAN
    with assms(1) show ?thesis
      by (simp add: SubpixelLocationInternal_def Let_def Dimensionality_negate_image out
          joint_fit_negate_image [OF _ assms(2)])
  next
    case INTEGER
    then show ?thesis
      by (simp add: SubpixelLocationInternal_def Let_def Dimensionality_negate_image out int)
  qed
qed

lemma negate_value_involution: "map_sum id negate_value (map_sum id negate_value x) = x"
  by (cases x) (simp_all add: negate_value_def)

lemma interior_negate_image: "interior (negate_image input) position = interior input position"
  by (simp add: interior_def negate_image_def)

lemma det_3x3_uminus:
  "det_3x3 [- q0, - q1, - q2, - q3, - q4, - q5, - q6, - q7, - q8]
     = - det_3x3 [q0, q1, q2, q3, q4, q5, q6, q7, q8]"
  by (simp add: det_3x3_def times_neg_left times_neg_right neg_plus_neg neg_minus_neg)

lemma Cramer_uminus:
  "\<forall>b c. length b = 9 \<longrightarrow> length c = 3 \<longrightarrow> Cramer (map uminus b) (map uminus c) = Cramer b c"
proof (intro allI impI)
  fix b c :: "dfloat list"
  assume "length b = 9" and "length c = 3"
  then obtain b0 b1 b2 b3 b4 b5 b6 b7 b8 c0 c1 c2 where
    b: "b = [b0, b1, b2, b3, b4, b5, b6, b7, b8]" and c: "c = [c0, c1, c2]"
    by (auto simp: length_Suc_conv eval_nat_numeral)
  show "Cramer (map uminus b) (map uminus c) = Cramer b c"
    by (simp add: Cramer_def Let_def b c det_3x3_uminus divide_neg_neg)
qed


lemma SubpixelLocation_line_3_zero_centre_minimum:
  "SubpixelLocation Solve (line_3 2 0 3) [1] S_MINIMUM S_GAUSSIAN_SEPARABLE
     = Inr \<lparr>coordinates = [Finite 1], value = Finite 0\<rparr>"
  by (simp add: SubpixelLocation_def line_3_def IsScalar_def Dimensionality_def upt_1
       uint_minus_1_def BooleanFromString_def ParseMethod_def S_defs SubpixelLocationInternal_def
       separable_body_def shift_def Let_def log_transform_def std_min_def minus_dfloat_def)

lemma SubpixelLocation_line_3_zero_centre_negated:
  "SubpixelLocation Solve (negate_image (line_3 2 0 3)) [1] S_MAXIMUM S_GAUSSIAN_SEPARABLE
     = Inr \<lparr>coordinates = [NaN], value = Finite 0\<rparr>"
  by (simp add: SubpixelLocation_def line_3_def negate_image_def IsScalar_def Dimensionality_def
       upt_1 uint_minus_1_def BooleanFromString_def ParseMethod_def S_defs
       SubpixelLocationInternal_def separable_body_def shift_def Let_def log_transform_def
       std_max_def minus_dfloat_def)

text \<open>
  A centre sample that is zero has no sign to undo. On the 3-sample line \<open>2, 0, 3\<close> the separable Gaussian
  method with the polarity minimum takes the logarithms of the samples as they are (the
  centre sample is not negative) and returns the coordinate \<open>1\<close> and the value \<open>0\<close>. On
  the negated line \<open>-2, 0, -3\<close> with the polarity maximum the centre sample is not
  negative either, so the logarithms of \<open>-2\<close> and \<open>-3\<close> are taken: they are NaN, and so
  is the returned coordinate.
\<close>

theorem SubpixelLocation_minimum_not_by_negation:
  "interior (line_3 2 0 3) [1]
   \<and> SubpixelLocation Cramer (line_3 2 0 3) [1] S_MINIMUM S_GAUSSIAN_SEPARABLE
       = Inr \<lparr>coordinates = [Finite 1], value = Finite 0\<rparr>
   \<and> map_sum id negate_value
       (SubpixelLocation Cramer (negate_image (line_3 2 0 3)) [1] S_MAXIMUM S_GAUSSIAN_SEPARABLE)
       = Inr \<lparr>coordinates = [NaN], value = Finite 0\<rparr>"
proof -
  have i: "interior (line_3 2 0 3) [1]"
    by (simp add: interior_def line_3_def)
  have n: "map_sum id negate_value
       (SubpixelLocation Cramer (negate_image (line_3 2 0 3)) [1] S_MAXIMUM S_GAUSSIAN_SEPARABLE)
       = Inr \<lparr>coordinates = [NaN], value = Finite 0\<rparr>"
    unfolding SubpixelLocation_line_3_zero_centre_negated by (simp add: negate_value_def)
  show ?thesis
    by (intro conjI i n SubpixelLocation_line_3_zero_centre_minimum)
qed

text \<open>
  C5, amended. The arithmetic is exact and the samples are real numbers. For an interior
  candidate and every method string, the outcome of \<open>SubpixelLocation\<close> with the polarity
  minimum on an image is its outcome with the polarity maximum on the negated image, with
  the value of the result negated back and the coordinates unchanged (errors are the same,
  and NaN is equal to NaN), provided that

  \<^item> for the two Gaussian methods the sample at the candidate is not zero (the sign of this
    sample decides whether the logarithm is taken of the samples or of their negations),
    and
  \<^item> on images of three dimensions the external solver of the 3D joint fit gives the same
    solution for a system and for the system with all signs changed.
\<close>

theorem SubpixelLocation_minimum_by_negation:
  assumes "interior input position"
    and "s_method \<in> {S_GAUSSIAN, S_GAUSSIAN_SEPARABLE} \<longrightarrow> sample input position \<noteq> 0"
    and "Dimensionality input = 3
           \<longrightarrow> (\<forall>b c. length b = 9 \<longrightarrow> length c = 3
                  \<longrightarrow> Solve (map uminus b) (map uminus c) = Solve b c)"
  shows "SubpixelLocation Solve input position S_MINIMUM s_method
           = map_sum id negate_value
               (SubpixelLocation Solve (negate_image input) position S_MAXIMUM s_method)"
proof -
  have b1: "border_loop input position [0..<Dimensionality input] = None"
    by (rule border_loop_of_interior [OF assms(1)])
  have b2: "border_loop (negate_image input) position [0..<Dimensionality input] = None"
    using border_loop_of_interior [of "negate_image input" position] assms(1)
    by (simp add: interior_negate_image Dimensionality_negate_image)
  have f: "forged (negate_image input) = forged input"
    "IsScalar (negate_image input) = IsScalar input"
    "data_type_real (negate_image input) = data_type_real input"
    by (simp_all add: negate_image_def IsScalar_def)
  have p: "BooleanFromString S_MINIMUM S_MINIMUM S_MAXIMUM = Inr True"
    "BooleanFromString S_MAXIMUM S_MINIMUM S_MAXIMUM = Inr False"
    by (simp_all add: BooleanFromString_def S_defs)
  have "SubpixelLocation Solve (negate_image input) position S_MAXIMUM s_method
          = map_sum id negate_value (SubpixelLocation Solve input position S_MINIMUM s_method)"
  proof (cases "ParseMethod s_method (Dimensionality input)")
    case (Inl e)
    then show ?thesis
      by (simp add: SubpixelLocation_def Let_def f p b1 b2 Dimensionality_negate_image)
  next
    case (Inr meth)
    then have "meth \<in> {GAUSSIAN, GAUSSIAN_SEPARABLE}
                 \<longrightarrow> s_method \<in> {S_GAUSSIAN, S_GAUSSIAN_SEPARABLE}"
      by (auto simp: ParseMethod_def Let_def split: if_splits)
    with assms(2) have "meth \<in> {GAUSSIAN, GAUSSIAN_SEPARABLE} \<longrightarrow> sample input position \<noteq> 0"
      by blast
    note SubpixelLocationInternal_negate_image [OF this assms(3)]
    with Inr show ?thesis
      by (simp add: SubpixelLocation_def Let_def f p b1 b2 Dimensionality_negate_image)
  qed
  then show ?thesis
    by (simp add: negate_value_involution)
qed


lemma SubpixelLocation_img2d_minimum:
  "SubpixelLocation Solve (img2d (1/4) (- (1/2)) 4) [1, 1] S_MINIMUM S_PARABOLIC
     = Inr \<lparr>coordinates = [Finite (5 / 4), Finite (1 / 2)], value = Finite (59 / 16)\<rparr>"
proof -
  have fit: "quadratic_fit_3x3 (parabola_2D (1/4) (- (1/2)) 4) (Finite 0) (Finite 0) (Finite 0)
               = (True, Finite (1/4), Finite (- (1/2)), Finite 4)"
    by (simp add: quadratic_fit_3x3_def least_squares_parabola_2D Let_def)
  have f: "forged (img2d cx cy v)" "tensor_elements (img2d cx cy v) = 1"
    "data_type_real (img2d cx cy v)" "sizes (img2d cx cy v) = [3, 3]" for cx cy v
    by (simp_all add: img2d_def)
  show ?thesis
    by (simp add: SubpixelLocation_def IsScalar_def Dimensionality_def upt_2 f sample_img2d
       stencil_3x3_img2d fit
       uint_minus_1_def BooleanFromString_def ParseMethod_def S_defs SubpixelLocationInternal_def
       joint_fit_def joint_2D_def Let_def)
qed

lemma SubpixelLocation_line_3_gaussian_minimum:
  "SubpixelLocation Solve (line_3 (- 1) (- exp 1) (- 1)) [1] S_MINIMUM S_GAUSSIAN_SEPARABLE
     = Inr \<lparr>coordinates = [Finite 1], value = Finite (- exp 1)\<rparr>"
  by (simp add: SubpixelLocation_def line_3_def IsScalar_def Dimensionality_def upt_1
       uint_minus_1_def BooleanFromString_def ParseMethod_def S_defs SubpixelLocationInternal_def
       separable_body_def shift_def Let_def log_transform_def)

theorem SubpixelLocation_minimum_by_negation_witness:
  "interior (img2d (1/4) (- (1/2)) 4) [1, 1]
   \<and> SubpixelLocation Cramer (img2d (1/4) (- (1/2)) 4) [1, 1] S_MINIMUM S_PARABOLIC
       = Inr \<lparr>coordinates = [Finite (5 / 4), Finite (1 / 2)], value = Finite (59 / 16)\<rparr>
   \<and> SubpixelLocation Cramer (negate_image (img2d (1/4) (- (1/2)) 4)) [1, 1] S_MAXIMUM S_PARABOLIC
       = Inr \<lparr>coordinates = [Finite (5 / 4), Finite (1 / 2)], value = Finite (- (59 / 16))\<rparr>
   \<and> interior (line_3 (- 1) (- exp 1) (- 1)) [1]
   \<and> sample (line_3 (- 1) (- exp 1) (- 1)) [1] \<noteq> 0
   \<and> SubpixelLocation Cramer (line_3 (- 1) (- exp 1) (- 1)) [1] S_MINIMUM S_GAUSSIAN_SEPARABLE
       = Inr \<lparr>coordinates = [Finite 1], value = Finite (- exp 1)\<rparr>
   \<and> SubpixelLocation Cramer (negate_image (line_3 (- 1) (- exp 1) (- 1))) [1] S_MAXIMUM
         S_GAUSSIAN_SEPARABLE
       = Inr \<lparr>coordinates = [Finite 1], value = Finite (exp 1)\<rparr>"
proof -
  let ?img = "img2d (1/4) (- (1/2)) 4"
  let ?line = "line_3 (- 1) (- exp 1) (- 1)"
  have i: "interior ?img [1, 1]"
    by (simp add: interior_img2d)
  have g: "S_PARABOLIC \<in> {S_GAUSSIAN, S_GAUSSIAN_SEPARABLE} \<longrightarrow> sample ?img [1, 1] \<noteq> 0"
    by (simp add: S_defs)
  have d: "Dimensionality ?img = 3
           \<longrightarrow> (\<forall>b c. length b = 9 \<longrightarrow> length c = 3
                  \<longrightarrow> Cramer (map uminus b) (map uminus c) = Cramer b c)"
    using Cramer_uminus by blast
  note m = SubpixelLocation_img2d_minimum [of Cramer]
  note t = SubpixelLocation_minimum_by_negation [OF i g d]
  have "SubpixelLocation Cramer (negate_image ?img) [1, 1] S_MAXIMUM S_PARABOLIC
          = map_sum id negate_value (SubpixelLocation Cramer ?img [1, 1] S_MINIMUM S_PARABOLIC)"
    unfolding t by (simp only: negate_value_involution)
  also have "\<dots> = Inr \<lparr>coordinates = [Finite (5 / 4), Finite (1 / 2)],
                         value = Finite (- (59 / 16))\<rparr>"
    unfolding m by (simp add: negate_value_def)
  finally have n: "SubpixelLocation Cramer (negate_image ?img) [1, 1] S_MAXIMUM S_PARABOLIC
       = Inr \<lparr>coordinates = [Finite (5 / 4), Finite (1 / 2)], value = Finite (- (59 / 16))\<rparr>" .
  have i': "interior ?line [1]"
    by (simp add: interior_def line_3_def)
  have nz: "sample ?line [1] \<noteq> 0"
    by (simp add: line_3_def)
  then have g': "S_GAUSSIAN_SEPARABLE \<in> {S_GAUSSIAN, S_GAUSSIAN_SEPARABLE}
                   \<longrightarrow> sample ?line [1] \<noteq> 0"
    by blast
  have d': "Dimensionality ?line = 3
           \<longrightarrow> (\<forall>b c. length b = 9 \<longrightarrow> length c = 3
                  \<longrightarrow> Cramer (map uminus b) (map uminus c) = Cramer b c)"
    using Cramer_uminus by blast
  note m' = SubpixelLocation_line_3_gaussian_minimum [of Cramer]
  note t' = SubpixelLocation_minimum_by_negation [OF i' g' d']
  have "SubpixelLocation Cramer (negate_image ?line) [1] S_MAXIMUM S_GAUSSIAN_SEPARABLE
          = map_sum id negate_value
              (SubpixelLocation Cramer ?line [1] S_MINIMUM S_GAUSSIAN_SEPARABLE)"
    unfolding t' by (simp only: negate_value_involution)
  also have "\<dots> = Inr \<lparr>coordinates = [Finite 1], value = Finite (exp 1)\<rparr>"
    unfolding m' by (simp add: negate_value_def)
  finally have n': "SubpixelLocation Cramer (negate_image ?line) [1] S_MAXIMUM
         S_GAUSSIAN_SEPARABLE
       = Inr \<lparr>coordinates = [Finite 1], value = Finite (exp 1)\<rparr>" .
  show ?thesis by (intro conjI i m n i' nz m' n')
qed

end
